theory Spec2Isabelle
  imports Complex_Main "HOL-Library.Multiset" "HOL-Library.Sublist"
begin

section \<open>Numbers and strings of the host language\<close>

text \<open>
  JavaScript numbers and PostgreSQL \<open>double precision\<close> values are modelled as real
  numbers, and NaN as \<open>None\<close>. Two roundings of doubles decide whether the code fails;
  they are part of the model (section on double-precision arithmetic below). Every
  other operation on doubles is taken as exact. Integer columns (\<open>intensity\<close>,
  \<open>incident_count\<close>) are \<open>int\<close>; the sums the handlers form over them stay far below
  \<open>2^53\<close>, where JavaScript's arithmetic on integers is exact.

  A JavaScript string is its list of UTF-16 code units, each a natural number.
\<close>

type_synonym js_string = "nat list"

definition str :: "string \<Rightarrow> js_string" where
  "str s = map of_char s"

text \<open>
  \<open>String.prototype.toLowerCase\<close>, on the Basic Latin and Latin-1 Supplement blocks
  (\<open>A\<close>-\<open>Z\<close>, and \<open>U+00C0\<close>-\<open>U+00DE\<close> without the multiplication sign); every other
  code unit is kept. The keywords of the classification are made of letters of these two
  blocks only, and the letters above are the only code units that \<open>toLowerCase\<close> maps
  to a letter of a keyword.
\<close>

definition lower_unit :: "nat \<Rightarrow> nat" where
  "lower_unit c =
     (if 65 \<le> c \<and> c \<le> 90 then c + 32
      else if 192 \<le> c \<and> c \<le> 222 \<and> c \<noteq> 215 then c + 32
      else c)"

definition toLowerCase :: "js_string \<Rightarrow> js_string" where
  "toLowerCase s = map lower_unit s"

text \<open>\<open>String.prototype.includes\<close>: the search string occurs at some position.\<close>

fun starts_with :: "js_string \<Rightarrow> js_string \<Rightarrow> bool" where
  "starts_with s [] = True"
| "starts_with [] (k # ks) = False"
| "starts_with (c # cs) (k # ks) = (c = k \<and> starts_with cs ks)"

fun js_includes :: "js_string \<Rightarrow> js_string \<Rightarrow> bool" where
  "js_includes [] k = (k = [])"
| "js_includes (c # cs) k = (starts_with (c # cs) k \<or> js_includes cs k)"

text \<open>\<open>Math.max(0, Math.min(100, x))\<close> on an integer.\<close>

definition clamp_score :: "int \<Rightarrow> int" where
  "clamp_score x = max 0 (min 100 x)"

text \<open>\<open>Math.round\<close> rounds a half towards \<open>+\<infinity>\<close>.\<close>

definition Math_round :: "real \<Rightarrow> int" where
  "Math_round x = \<lfloor>x + 1 / 2\<rfloor>"

text \<open>
  \<open>parseFloat(x.toFixed(2))\<close>: \<open>toFixed\<close> picks the integer \<open>n\<close> with \<open>n / 100\<close> nearest
  to \<open>|x|\<close>, the larger one on a tie, and keeps the sign.
\<close>

definition toFixed2 :: "real \<Rightarrow> real" where
  "toFixed2 x =
     (if x < 0 then - (real_of_int \<lfloor>- x * 100 + 1 / 2\<rfloor> / 100)
      else real_of_int \<lfloor>x * 100 + 1 / 2\<rfloor> / 100)"

text \<open>\<open>Math.atan2(y, x)\<close>, by quadrant.\<close>

definition Math_atan2 :: "real \<Rightarrow> real \<Rightarrow> real" where
  "Math_atan2 y x =
     (if 0 < x then arctan (y / x)
      else if x < 0 \<and> 0 \<le> y then arctan (y / x) + pi
      else if x < 0 then arctan (y / x) - pi
      else if 0 < y then pi / 2
      else if y < 0 then - (pi / 2)
      else 0)"

text \<open>SQL \<open>radians(x)\<close>.\<close>

definition radians :: "real \<Rightarrow> real" where
  "radians x = x * pi / 180"

section \<open>Double-precision arithmetic\<close>

text \<open>
  PostgreSQL and the JavaScript engine evaluate the distance formulas in IEEE double
  precision. Their arithmetic is not part of the repository, so it is a parameter of the
  model: a platform gives, for each of the two values whose range decides a failure, the
  rounding error the doubles accumulate in it, as a function of the four coordinates
  the formula reads.
  \<^item> \<open>pg_acos_err\<close>: the error in the argument PostgreSQL passes to \<open>acos\<close>, which raises
    \<open>input is out of range\<close> outside \<open>[-1, 1]\<close>;
  \<^item> \<open>js_a_err\<close>: the error in the intermediate \<open>a\<close> of the Haversine computation of the
    route handler, whose \<open>Math.sqrt(1 - a)\<close> is NaN for \<open>a\<close> above 1.
  In IEEE arithmetic both errors are a few units in the last place, and can round a
  value that is exactly 1 up to \<open>1 + 2^-52\<close>.
\<close>

record platform =
  pg_acos_err :: "real \<Rightarrow> real \<Rightarrow> real \<Rightarrow> real \<Rightarrow> real"
  js_a_err :: "real \<Rightarrow> real \<Rightarrow> real \<Rightarrow> real \<Rightarrow> real"

section \<open>The store\<close>

text \<open>
  Table \<open>heat_zones\<close> (DDL in the database initialisation). Timestamps are natural
  numbers read from a clock.
\<close>

record heat_zone =
  hz_id :: nat
  hz_uuid :: js_string
  hz_latitude :: real
  hz_longitude :: real
  intensity :: int
  zone_type :: js_string
  last_incident_at :: nat
  incident_count :: int
  hz_created_at :: nat
  hz_updated_at :: nat

text \<open>Table \<open>help_points\<close>, the columns the handlers read.\<close>

record help_point =
  hp_uuid :: js_string
  hp_name :: js_string
  hp_type :: js_string
  hp_latitude :: real
  hp_longitude :: real
  hp_phone :: "js_string option"
  is_active :: bool

text \<open>
  Table \<open>reports\<close>: of the columns the creation handler writes, those that the
  request decides and the accumulation reads.
\<close>

record report =
  rp_uuid :: js_string
  rp_user_id :: nat
  rp_incident_type :: js_string
  rp_latitude :: real
  rp_longitude :: real
  rp_severity :: js_string

text \<open>
  A table is the list of its rows in insertion order; \<open>heat_zones_seq\<close> is the value
  the \<open>SERIAL\<close> column \<open>id\<close> takes next.
\<close>

record store =
  heat_zones :: "heat_zone list"
  heat_zones_seq :: nat
  help_points :: "help_point list"
  reports :: "report list"

text \<open>
  The distance expression of every proximity predicate in the SQL text:
  \<open>6371 * acos(cos(radians($1)) * cos(radians(latitude)) *
  cos(radians(longitude) - radians($2)) + sin(radians($1)) * sin(radians(latitude)))\<close>.
  \<open>acos_arg\<close> is the argument of \<open>acos\<close> as the platform computes it. In exact
  arithmetic it lies in \<open>[-1, 1]\<close> (lemma \<open>central_cos_bounds\<close> below); with the rounding
  error it can leave the interval, and then \<open>acos\<close> raises and the statement fails.
\<close>

definition acos_arg :: "platform \<Rightarrow> real \<Rightarrow> real \<Rightarrow> real \<Rightarrow> real \<Rightarrow> real" where
  "acos_arg P p1 p2 lat lng =
     cos (radians p1) * cos (radians lat) * cos (radians lng - radians p2)
     + sin (radians p1) * sin (radians lat)
     + pg_acos_err P p1 p2 lat lng"

definition acos_raises :: "platform \<Rightarrow> real \<Rightarrow> real \<Rightarrow> real \<Rightarrow> real \<Rightarrow> bool" where
  "acos_raises P p1 p2 lat lng =
     (acos_arg P p1 p2 lat lng < - 1 \<or> 1 < acos_arg P p1 p2 lat lng)"

definition sql_distance :: "platform \<Rightarrow> real \<Rightarrow> real \<Rightarrow> real \<Rightarrow> real \<Rightarrow> real" where
  "sql_distance P p1 p2 lat lng = 6371 * arccos (acos_arg P p1 p2 lat lng)"

text \<open>
  A \<open>WHERE\<close> clause is evaluated row by row, \<open>AND\<close> and \<open>OR\<close> from left to right and no
  further than needed; a row on which the distance is evaluated and \<open>acos\<close> raises makes
  the whole statement fail.
\<close>

text \<open>The row a scoring query returns: \<open>SELECT zone_type, intensity, incident_count\<close>.\<close>

record zone_row =
  row_zone_type :: js_string
  row_intensity :: int
  row_incident_count :: int

definition zone_row_of :: "heat_zone \<Rightarrow> zone_row" where
  "zone_row_of z =
     \<lparr>row_zone_type = zone_type z, row_intensity = intensity z,
      row_incident_count = incident_count z\<rparr>"

section \<open>Safety scoring\<close>

text \<open>
  The reduction both scoring handlers run over the fetched rows:
  \<open>let safetyScore = 100; rows.forEach(zone => { safetyScore -= zone.intensity * 2 });
  safetyScore = Math.max(0, Math.min(100, safetyScore))\<close>.
\<close>

definition score_rows :: "zone_row list \<Rightarrow> int" where
  "score_rows rows = clamp_score (fold (\<lambda>zone safetyScore. safetyScore - row_intensity zone * 2) rows 100)"

text \<open>\<open>safetyScore >= 80 ? 'high' : safetyScore >= 50 ? 'medium' : 'low'\<close>.\<close>

definition safety_level :: "int \<Rightarrow> js_string" where
  "safety_level safetyScore =
     (if safetyScore \<ge> 80 then str ''high''
      else if safetyScore \<ge> 50 then str ''medium''
      else str ''low'')"


text \<open>
  The loop of \<open>GET /api/stats/safety-score\<close> also counts two zone types:
  \<open>if (zone.zone_type === 'crime') crimeZones++;
  if (zone.zone_type === 'accident') accidentZones++\<close>.
\<close>

definition score_step :: "zone_row \<Rightarrow> int \<times> nat \<times> nat \<Rightarrow> int \<times> nat \<times> nat" where
  "score_step zone acc =
     (case acc of (safetyScore, crimeZones, accidentZones) \<Rightarrow>
        (safetyScore - row_intensity zone * 2,
         if row_zone_type zone = str ''crime'' then crimeZones + 1 else crimeZones,
         if row_zone_type zone = str ''accident'' then accidentZones + 1 else accidentZones))"

section \<open>Replies and faults\<close>

datatype 'a reply = Ok200 'a | Created201 'a | BadRequest400 | ServerError500

text \<open>
  A statement sent to the store can fail for reasons the handlers do not control (the
  connection, a constraint the model does not spell out). The environment of a request
  says which statements fail, what the clock reads and which identifiers the calls of
  \<open>uuidv4()\<close> return: one for the report, one for a new zone.
\<close>

record read_env =
  zones_query_fails :: bool
  help_query_fails :: bool

record write_env =
  now :: nat
  report_uuid :: js_string
  new_uuid :: js_string
  report_insert_fails :: bool
  zone_select_fails :: bool
  zone_update_fails :: bool
  zone_insert_fails :: bool

section \<open>GET /api/stats/safety-score\<close>

record score_query =
  q_lat :: "real option"
  q_lng :: "real option"
  q_radius :: "real option"

record score_reply =
  sc_safetyScore :: int
  sc_safetyLevel :: js_string
  sc_dangerZones :: nat
  sc_crimeZones :: nat
  sc_accidentZones :: nat
  sc_helpPointsNearby :: nat
  sc_recommendation :: js_string

definition select_zones_within :: "platform \<Rightarrow> real \<Rightarrow> real \<Rightarrow> real \<Rightarrow> store \<Rightarrow> zone_row list" where
  "select_zones_within P lat lng radius s =
     map zone_row_of
       (filter (\<lambda>z. sql_distance P lat lng (hz_latitude z) (hz_longitude z) \<le> radius) (heat_zones s))"

definition select_zones_within_raises :: "platform \<Rightarrow> real \<Rightarrow> real \<Rightarrow> store \<Rightarrow> bool" where
  "select_zones_within_raises P lat lng s =
     list_ex (\<lambda>z. acos_raises P lat lng (hz_latitude z) (hz_longitude z)) (heat_zones s)"

definition count_help_points_within :: "platform \<Rightarrow> real \<Rightarrow> real \<Rightarrow> real \<Rightarrow> store \<Rightarrow> nat" where
  "count_help_points_within P lat lng radius s =
     length (filter (\<lambda>h. is_active h \<and> sql_distance P lat lng (hp_latitude h) (hp_longitude h) \<le> radius)
               (help_points s))"

definition count_help_points_within_raises :: "platform \<Rightarrow> real \<Rightarrow> real \<Rightarrow> store \<Rightarrow> bool" where
  "count_help_points_within_raises P lat lng s =
     list_ex (\<lambda>h. is_active h \<and> acos_raises P lat lng (hp_latitude h) (hp_longitude h))
       (help_points s)"

text \<open>
  The query parameters arrive parsed: \<open>None\<close> is an absent or empty parameter (the
  \<open>!lat || !lng\<close> test), and \<open>radius\<close> defaults to 5. A query fails when the
  environment says so or when \<open>acos\<close> raises on one of its rows; the \<open>catch\<close> replies
  500.
\<close>

definition safety_score :: "platform \<Rightarrow> read_env \<Rightarrow> score_query \<Rightarrow> store \<Rightarrow> score_reply reply" where
  "safety_score P e q s =
     (case (q_lat q, q_lng q) of
        (Some lat, Some lng) \<Rightarrow>
          (let radius = (case q_radius q of None \<Rightarrow> 5 | Some r \<Rightarrow> r) in
           if zones_query_fails e \<or> select_zones_within_raises P lat lng s then ServerError500
           else
             let rows = select_zones_within P lat lng radius s;
                 (safetyScore0, crimeZones, accidentZones) = fold score_step rows (100, 0, 0);
                 safetyScore = clamp_score safetyScore0
             in if help_query_fails e \<or> count_help_points_within_raises P lat lng s
                then ServerError500
                else Ok200
                  \<lparr>sc_safetyScore = safetyScore,
                   sc_safetyLevel = safety_level safetyScore,
                   sc_dangerZones = length rows,
                   sc_crimeZones = crimeZones,
                   sc_accidentZones = accidentZones,
                   sc_helpPointsNearby = count_help_points_within P lat lng radius s,
                   sc_recommendation =
                     (if safetyScore < 50 then str ''Se recomienda precauci'' @ [243] @ str ''n en esta zona''
                      else if safetyScore < 80 then str ''Zona moderadamente segura''
                      else str ''Zona segura'')\<rparr>)
      | _ \<Rightarrow> BadRequest400)"

section \<open>POST /api/routes/calculate\<close>

record route_body =
  b_originLat :: "real option"
  b_originLng :: "real option"
  b_originAddress :: "js_string option"
  b_destinationLat :: "real option"
  b_destinationLng :: "real option"
  b_destinationAddress :: "js_string option"

text \<open>
  The reply: \<open>distanceKm\<close> and \<open>estimatedTimeMin\<close> are \<open>None\<close> when the handler computed
  NaN, which the JSON reply carries as \<open>null\<close>.
\<close>

record route_reply =
  rt_origin :: "real \<times> real \<times> js_string option"
  rt_destination :: "real \<times> real \<times> js_string option"
  rt_safetyScore :: int
  rt_safetyLevel :: js_string
  rt_distanceKm :: "real option"
  rt_estimatedTimeMin :: "int option"
  rt_dangerZones :: nat
  rt_helpPointsNearby :: "help_point list"

text \<open>\<open>isFloat({ min, max })\<close> on a body field; \<open>None\<close> is a field that is no number.\<close>

definition isFloat :: "real \<Rightarrow> real \<Rightarrow> real option \<Rightarrow> bool" where
  "isFloat lo hi v = (case v of None \<Rightarrow> False | Some x \<Rightarrow> lo \<le> x \<and> x \<le> hi)"

definition route_validation :: "route_body \<Rightarrow> bool" where
  "route_validation b =
     (isFloat (- 90) 90 (b_originLat b) \<and> isFloat (- 180) 180 (b_originLng b) \<and>
      isFloat (- 90) 90 (b_destinationLat b) \<and> isFloat (- 180) 180 (b_destinationLng b))"

definition select_zones_in_route :: "platform \<Rightarrow> real \<Rightarrow> real \<Rightarrow> real \<Rightarrow> real \<Rightarrow> store \<Rightarrow> zone_row list" where
  "select_zones_in_route P originLat originLng destinationLat destinationLng s =
     map zone_row_of
       (filter (\<lambda>z. sql_distance P originLat originLng (hz_latitude z) (hz_longitude z) \<le> 2
                   \<or> sql_distance P destinationLat destinationLng (hz_latitude z) (hz_longitude z) \<le> 2)
          (heat_zones s))"

text \<open>
  The two distances of a route query on one row: the second is evaluated only when the
  first is above its bound.
\<close>

definition route_row_raises :: "platform \<Rightarrow> real \<Rightarrow> real \<Rightarrow> real \<Rightarrow> real \<Rightarrow> real \<Rightarrow> real \<Rightarrow> real \<Rightarrow> bool" where
  "route_row_raises P originLat originLng destinationLat destinationLng bound lat lng =
     (acos_raises P originLat originLng lat lng
      \<or> (\<not> sql_distance P originLat originLng lat lng \<le> bound
          \<and> acos_raises P destinationLat destinationLng lat lng))"

definition select_zones_in_route_raises :: "platform \<Rightarrow> real \<Rightarrow> real \<Rightarrow> real \<Rightarrow> real \<Rightarrow> store \<Rightarrow> bool" where
  "select_zones_in_route_raises P originLat originLng destinationLat destinationLng s =
     list_ex (\<lambda>z. route_row_raises P originLat originLng destinationLat destinationLng 2
                    (hz_latitude z) (hz_longitude z))
       (heat_zones s)"

definition select_help_points_in_route :: "platform \<Rightarrow> real \<Rightarrow> real \<Rightarrow> real \<Rightarrow> real \<Rightarrow> store \<Rightarrow> help_point list" where
  "select_help_points_in_route P originLat originLng destinationLat destinationLng s =
     take 10
       (filter (\<lambda>h. is_active h \<and>
                   (sql_distance P originLat originLng (hp_latitude h) (hp_longitude h) \<le> 1
                    \<or> sql_distance P destinationLat destinationLng (hp_latitude h) (hp_longitude h) \<le> 1))
          (help_points s))"

definition select_help_points_in_route_raises :: "platform \<Rightarrow> real \<Rightarrow> real \<Rightarrow> real \<Rightarrow> real \<Rightarrow> store \<Rightarrow> bool" where
  "select_help_points_in_route_raises P originLat originLng destinationLat destinationLng s =
     list_ex (\<lambda>h. is_active h \<and>
                  route_row_raises P originLat originLng destinationLat destinationLng 1
                    (hp_latitude h) (hp_longitude h))
       (help_points s)"

text \<open>
  The Haversine computation written inline in the handler. \<open>haversine_a\<close> is the
  intermediate \<open>a\<close> as the platform computes it. For equal endpoints every operation on
  the way is exact in IEEE arithmetic (\<open>x - x = 0\<close>, \<open>0 * y = 0\<close>, \<open>sin 0 = 0\<close>,
  \<open>0 + 0 = 0\<close>), so \<open>a\<close> is 0 there on every platform; for other endpoints the rounding
  error of the platform is added. In exact arithmetic \<open>a\<close> lies in \<open>[0, 1]\<close> (lemma
  \<open>haversine_a_range\<close> below). \<open>Math.sqrt\<close> of a negative number is NaN, and NaN passes
  through \<open>Math.atan2\<close> and the products: the distance is then NaN, here \<open>None\<close>.
\<close>

definition haversine_a :: "platform \<Rightarrow> real \<Rightarrow> real \<Rightarrow> real \<Rightarrow> real \<Rightarrow> real" where
  "haversine_a P originLat originLng destinationLat destinationLng =
     (let dLat = (destinationLat - originLat) * pi / 180;
          dLng = (destinationLng - originLng) * pi / 180
      in sin (dLat / 2) * sin (dLat / 2) +
         cos (originLat * pi / 180) * cos (destinationLat * pi / 180) *
         sin (dLng / 2) * sin (dLng / 2) +
         (if originLat = destinationLat \<and> originLng = destinationLng then 0
          else js_a_err P originLat originLng destinationLat destinationLng))"

definition haversine :: "platform \<Rightarrow> real \<Rightarrow> real \<Rightarrow> real \<Rightarrow> real \<Rightarrow> real option" where
  "haversine P originLat originLng destinationLat destinationLng =
     (let R = 6371;
          a = haversine_a P originLat originLng destinationLat destinationLng
      in if a < 0 \<or> 1 < a then None
         else Some (R * (2 * Math_atan2 (sqrt a) (sqrt (1 - a)))))"

text \<open>
  The handler. On a NaN distance \<open>Math.round\<close> and \<open>toFixed\<close> give NaN again, and the
  reply is still 200.
\<close>

definition calculate_route :: "platform \<Rightarrow> read_env \<Rightarrow> route_body \<Rightarrow> store \<Rightarrow> route_reply reply" where
  "calculate_route P e b s =
     (if \<not> route_validation b then BadRequest400
      else
        let originLat = the (b_originLat b); originLng = the (b_originLng b);
            destinationLat = the (b_destinationLat b); destinationLng = the (b_destinationLng b)
        in if zones_query_fails e
              \<or> select_zones_in_route_raises P originLat originLng destinationLat destinationLng s
           then ServerError500
           else
             let heatZonesInRoute = select_zones_in_route P originLat originLng destinationLat destinationLng s;
                 safetyScore = score_rows heatZonesInRoute;
                 distance = haversine P originLat originLng destinationLat destinationLng;
                 estimatedTime = map_option (\<lambda>distance. Math_round ((distance / 30) * 60)) distance
             in if help_query_fails e
                   \<or> select_help_points_in_route_raises P originLat originLng destinationLat destinationLng s
                then ServerError500
                else Ok200
                  \<lparr>rt_origin = (originLat, originLng, b_originAddress b),
                   rt_destination = (destinationLat, destinationLng, b_destinationAddress b),
                   rt_safetyScore = safetyScore,
                   rt_safetyLevel = safety_level safetyScore,
                   rt_distanceKm = map_option toFixed2 distance,
                   rt_estimatedTimeMin = estimatedTime,
                   rt_dangerZones = length heatZonesInRoute,
                   rt_helpPointsNearby =
                     select_help_points_in_route P originLat originLng destinationLat destinationLng s\<rparr>)"

section \<open>Heat-zone accumulation\<close>

text \<open>
  The zone type of an incident label:
  \<open>let zoneType = 'danger';
  if (incidentType.toLowerCase().includes('accidente')) zoneType = 'accident';
  else if (... includes('robo') || ... includes('crimen')) zoneType = 'crime';
  else if (... includes('congestion') || ... includes('trafico')) zoneType = 'congestion'\<close>,
  where the source writes the last two keywords with an accented \<open>o\<close> (code unit
  \<open>U+00F3\<close>) and an accented \<open>a\<close> (code unit \<open>U+00E1\<close>).
\<close>

definition kw_congestion :: js_string where
  "kw_congestion = str ''congesti'' @ [243] @ str ''n''"

definition kw_trafico :: js_string where
  "kw_trafico = str ''tr'' @ [225] @ str ''fico''"

definition classify :: "js_string \<Rightarrow> js_string" where
  "classify incidentType =
     (if js_includes (toLowerCase incidentType) (str ''accidente'') then str ''accident''
      else if js_includes (toLowerCase incidentType) (str ''robo'')
              \<or> js_includes (toLowerCase incidentType) (str ''crimen'') then str ''crime''
      else if js_includes (toLowerCase incidentType) kw_congestion
              \<or> js_includes (toLowerCase incidentType) kw_trafico then str ''congestion''
      else str ''danger'')"

text \<open>
  A value stored in a \<open>DECIMAL(p, 8)\<close> column is rounded to eight decimals, a half away
  from zero; the statement fails when the rounded value needs more than \<open>p - 8\<close> digits
  before the point.
\<close>

definition numeric_8 :: "real \<Rightarrow> real" where
  "numeric_8 x =
     (if x < 0 then - (real_of_int \<lfloor>- x * 10 ^ 8 + 1 / 2\<rfloor> / 10 ^ 8)
      else real_of_int \<lfloor>x * 10 ^ 8 + 1 / 2\<rfloor> / 10 ^ 8)"

text \<open>
  \<open>SELECT id, incident_count, intensity FROM heat_zones WHERE zone_type = $1 AND (...) <= 0.1\<close>:
  the rows in table order. The distance is evaluated on the rows of the zone type
  asked for.
\<close>

definition select_existing_zone :: "platform \<Rightarrow> js_string \<Rightarrow> real \<Rightarrow> real \<Rightarrow> store \<Rightarrow> heat_zone list" where
  "select_existing_zone P zoneType latitude longitude s =
     filter (\<lambda>z. zone_type z = zoneType \<and>
                 sql_distance P latitude longitude (hz_latitude z) (hz_longitude z) \<le> 1 / 10)
       (heat_zones s)"

definition select_existing_zone_raises :: "platform \<Rightarrow> js_string \<Rightarrow> real \<Rightarrow> real \<Rightarrow> store \<Rightarrow> bool" where
  "select_existing_zone_raises P zoneType latitude longitude s =
     list_ex (\<lambda>z. zone_type z = zoneType \<and>
                  acos_raises P latitude longitude (hz_latitude z) (hz_longitude z))
       (heat_zones s)"

text \<open>
  \<open>UPDATE heat_zones SET incident_count = incident_count + 1, intensity = $1,
  last_incident_at = CURRENT_TIMESTAMP, updated_at = CURRENT_TIMESTAMP WHERE id = $2\<close>.
  The statement fails when a row it changes would break the \<open>CHECK\<close> on \<open>intensity\<close> or
  leave the range of the \<open>INTEGER\<close> column \<open>incident_count\<close>.
\<close>

definition update_row_ok :: "int \<Rightarrow> nat \<Rightarrow> heat_zone \<Rightarrow> bool" where
  "update_row_ok newIntensity zid z =
     (hz_id z \<noteq> zid \<or> (1 \<le> newIntensity \<and> newIntensity \<le> 10 \<and> incident_count z + 1 \<le> 2147483647))"

definition update_row :: "int \<Rightarrow> nat \<Rightarrow> nat \<Rightarrow> heat_zone \<Rightarrow> heat_zone" where
  "update_row newIntensity zid t z =
     (if hz_id z = zid
      then z\<lparr>incident_count := incident_count z + 1, intensity := newIntensity,
             last_incident_at := t, hz_updated_at := t\<rparr>
      else z)"

definition update_heat_zone :: "int \<Rightarrow> nat \<Rightarrow> nat \<Rightarrow> store \<Rightarrow> store option" where
  "update_heat_zone newIntensity zid t s =
     (if list_all (update_row_ok newIntensity zid) (heat_zones s)
      then Some (s\<lparr>heat_zones := map (update_row newIntensity zid t) (heat_zones s)\<rparr>)
      else None)"

text \<open>
  \<open>INSERT INTO heat_zones (uuid, latitude, longitude, zone_type, intensity)
  VALUES ($1, $2, $3, $4, 1)\<close>; the other columns take their defaults
  (\<open>incident_count\<close> 1, the timestamps the clock). The statement fails on a \<open>uuid\<close> already
  in the table, on a coordinate too large for its column and on a \<open>zone_type\<close> outside
  the four the \<open>CHECK\<close> lists.
\<close>

definition zone_types :: "js_string list" where
  "zone_types = [str ''crime'', str ''accident'', str ''congestion'', str ''danger'']"

definition new_zone :: "js_string \<Rightarrow> real \<Rightarrow> real \<Rightarrow> js_string \<Rightarrow> nat \<Rightarrow> store \<Rightarrow> heat_zone" where
  "new_zone uuid lat lng zoneType t s =
     \<lparr>hz_id = heat_zones_seq s, hz_uuid = uuid,
      hz_latitude = numeric_8 lat, hz_longitude = numeric_8 lng,
      intensity = 1, zone_type = zoneType, last_incident_at = t,
      incident_count = 1, hz_created_at = t, hz_updated_at = t\<rparr>"

definition insert_heat_zone :: "js_string \<Rightarrow> real \<Rightarrow> real \<Rightarrow> js_string \<Rightarrow> nat \<Rightarrow> store \<Rightarrow> store option" where
  "insert_heat_zone uuid lat lng zoneType t s =
     (if uuid \<notin> set (map hz_uuid (heat_zones s)) \<and> length uuid \<le> 36 \<and>
         \<bar>numeric_8 lat\<bar> < 100 \<and> \<bar>numeric_8 lng\<bar> < 1000 \<and> zoneType \<in> set zone_types
      then Some (s\<lparr>heat_zones := heat_zones s @ [new_zone uuid lat lng zoneType t s],
                    heat_zones_seq := Suc (heat_zones_seq s)\<rparr>)
      else None)"

text \<open>
  The body of the \<open>try\<close> block of \<open>updateHeatZone\<close>: \<open>None\<close> is an exception thrown by a
  statement. The query throws when the environment says so or when \<open>acos\<close> raises on
  one of its rows.
\<close>

definition updateHeatZone_try :: "platform \<Rightarrow> write_env \<Rightarrow> real \<Rightarrow> real \<Rightarrow> js_string \<Rightarrow> store \<Rightarrow> store option" where
  "updateHeatZone_try P e latitude longitude incidentType s =
     (let zoneType = classify incidentType in
      if zone_select_fails e \<or> select_existing_zone_raises P zoneType latitude longitude s then None
      else
        (case select_existing_zone P zoneType latitude longitude s of
           zone # _ \<Rightarrow>
             (let newIntensity = min 10 (intensity zone + 1) in
              if zone_update_fails e then None
              else update_heat_zone newIntensity (hz_id zone) (now e) s)
         | [] \<Rightarrow>
             (if zone_insert_fails e then None
              else insert_heat_zone (new_uuid e) latitude longitude zoneType (now e) s)))"

text \<open>
  \<open>updateHeatZone\<close>: the \<open>catch\<close> writes one line to the console and returns; the result
  is the store and the lines written.
\<close>

definition updateHeatZone :: "platform \<Rightarrow> write_env \<Rightarrow> real \<Rightarrow> real \<Rightarrow> js_string \<Rightarrow> store \<Rightarrow> store \<times> string list" where
  "updateHeatZone P e latitude longitude incidentType s =
     (case updateHeatZone_try P e latitude longitude incidentType s of
        Some s' \<Rightarrow> (s', [])
      | None \<Rightarrow> (s, [''Error al actualizar zona de calor:'']))"

section \<open>POST /api/reports\<close>

text \<open>
  The white-space characters of a JavaScript regular expression, which the sanitizer
  \<open>trim()\<close> strips from both ends.
\<close>

definition is_space :: "nat \<Rightarrow> bool" where
  "is_space c =
     (c \<in> {9, 10, 11, 12, 13, 32, 160, 5760, 8232, 8233, 8239, 8287, 12288, 65279}
      \<or> (8192 \<le> c \<and> c \<le> 8202))"

definition trim :: "js_string \<Rightarrow> js_string" where
  "trim s = rev (dropWhile is_space (rev (dropWhile is_space s)))"

record report_body =
  b_incidentType :: "js_string option"
  b_latitude :: "real option"
  b_longitude :: "real option"
  b_severity :: "js_string option"

text \<open>
  \<open>reportValidation\<close>: \<open>body('incidentType').trim().notEmpty()\<close>, and \<open>isFloat\<close> on the
  two coordinates.
\<close>

definition reportValidation :: "report_body \<Rightarrow> bool" where
  "reportValidation b =
     ((case b_incidentType b of None \<Rightarrow> False | Some t \<Rightarrow> trim t \<noteq> []) \<and>
      isFloat (- 90) 90 (b_latitude b) \<and> isFloat (- 180) 180 (b_longitude b))"

text \<open>
  \<open>INSERT INTO reports ... RETURNING ...\<close>: the statement fails when the environment says
  so; otherwise the row is appended and returned.
\<close>

definition insert_report :: "write_env \<Rightarrow> report \<Rightarrow> store \<Rightarrow> (report \<times> store) option" where
  "insert_report e r s =
     (if report_insert_fails e then None
      else Some (r, s\<lparr>reports := reports s @ [r]\<rparr>))"

text \<open>
  The handler, for a request that passed \<open>verifyToken\<close> as user \<open>user_id\<close>:
  validation, the insertion of the report, then \<open>await updateHeatZone(...)\<close> and the
  reply 201. The result is the reply, the store and the console lines.
\<close>

definition report_row :: "write_env \<Rightarrow> nat \<Rightarrow> report_body \<Rightarrow> report" where
  "report_row e user_id b =
     \<lparr>rp_uuid = report_uuid e, rp_user_id = user_id,
      rp_incident_type = trim (the (b_incidentType b)),
      rp_latitude = numeric_8 (the (b_latitude b)),
      rp_longitude = numeric_8 (the (b_longitude b)),
      rp_severity = (case b_severity b of None \<Rightarrow> str ''medium'' | Some v \<Rightarrow> v)\<rparr>"

definition create_report :: "platform \<Rightarrow> write_env \<Rightarrow> nat \<Rightarrow> report_body \<Rightarrow> store \<Rightarrow> report reply \<times> store \<times> string list" where
  "create_report P e user_id b s =
     (if \<not> reportValidation b then (BadRequest400, s, [])
      else
        let incidentType = trim (the (b_incidentType b));
            latitude = the (b_latitude b);
            longitude = the (b_longitude b)
        in (case insert_report e (report_row e user_id b) s of
              None \<Rightarrow> (ServerError500, s, [''Error al crear reporte:''])
            | Some (report, s1) \<Rightarrow>
                (let (s2, lines) = updateHeatZone P e latitude longitude incidentType s1
                 in (Created201 report, s2, lines))))"

text \<open>Recording a sequence of incidents, one call of \<open>updateHeatZone\<close> after the other.\<close>

fun record_incidents :: "platform \<Rightarrow> (write_env \<times> real \<times> real \<times> js_string) list \<Rightarrow> store \<Rightarrow> store" where
  "record_incidents P [] s = s"
| "record_incidents P ((e, latitude, longitude, incidentType) # rest) s =
     record_incidents P rest (fst (updateHeatZone P e latitude longitude incidentType s))"

section \<open>Notions of the specification\<close>

text \<open>
  The cosine of the central angle between two points of the sphere, in exact
  arithmetic: the value both distance formulas approximate.
\<close>

definition central_cos :: "real \<Rightarrow> real \<Rightarrow> real \<Rightarrow> real \<Rightarrow> real" where
  "central_cos lat1 lng1 lat2 lng2 =
     cos (radians lat1) * cos (radians lat2) * cos (radians lng2 - radians lng1)
     + sin (radians lat1) * sin (radians lat2)"

text \<open>
  The positions, in the table \<open>heat_zones\<close>, of the zones within \<open>r\<close> km of a point. A
  position identifies a zone.
\<close>

definition near_indices :: "platform \<Rightarrow> real \<Rightarrow> real \<Rightarrow> real \<Rightarrow> store \<Rightarrow> nat set" where
  "near_indices P lat lng r s =
     {i. i < length (heat_zones s) \<and>
         sql_distance P lat lng (hz_latitude (heat_zones s ! i)) (hz_longitude (heat_zones s ! i)) \<le> r}"

text \<open>
  A case-insensitive substring match, in the specification's words: some substring of
  the label equals the keyword when letter case is ignored.
\<close>

definition ci_contains :: "js_string \<Rightarrow> js_string \<Rightarrow> bool" where
  "ci_contains label keyword =
     (\<exists>pre part post. label = pre @ part @ post \<and> toLowerCase part = toLowerCase keyword)"

text \<open>
  The bounds of the data model on a zone: \<open>intensity\<close> in \<open>[1, 10]\<close> and
  \<open>incidentCount\<close> at least 1.
\<close>

definition zone_ok :: "heat_zone \<Rightarrow> bool" where
  "zone_ok z = (1 \<le> intensity z \<and> intensity z \<le> 10 \<and> 1 \<le> incident_count z)"

definition zones_ok :: "store \<Rightarrow> bool" where
  "zones_ok s = list_all zone_ok (heat_zones s)"

text \<open>
  What the primary key and the sequence give: the \<open>id\<close>s of the table are distinct and
  below the next value of the sequence.
\<close>

definition ids_ok :: "store \<Rightarrow> bool" where
  "ids_ok s =
     (distinct (map hz_id (heat_zones s)) \<and>
      list_all (\<lambda>z. hz_id z < heat_zones_seq s) (heat_zones s))"

text \<open>
  The table after \<open>k\<close> incidents of one zone type at one point, recorded on top of the
  table of \<open>s0\<close>: the rows of \<open>s0\<close> and one more zone, of that type, at the stored
  coordinates, with \<open>k\<close> incidents and intensity \<open>min(10, k)\<close>.
\<close>

definition one_zone_added :: "store \<Rightarrow> real \<Rightarrow> real \<Rightarrow> js_string \<Rightarrow> nat \<Rightarrow> store \<Rightarrow> bool" where
  "one_zone_added s0 lat lng t k s =
     (\<exists>z. heat_zones s = heat_zones s0 @ [z] \<and> hz_id z = heat_zones_seq s0 \<and>
          hz_latitude z = numeric_8 lat \<and> hz_longitude z = numeric_8 lng \<and>
          zone_type z = t \<and> intensity z = min 10 (int k) \<and> incident_count z = int k)"

text \<open>An environment that makes no statement of a request fail.\<close>

definition no_faults :: "write_env \<Rightarrow> bool" where
  "no_faults e =
     (\<not> report_insert_fails e \<and> \<not> zone_select_fails e \<and> \<not> zone_update_fails e \<and>
      \<not> zone_insert_fails e)"

section \<open>Example data\<close>

text \<open>
  A platform for the examples. It has the rounding error of IEEE double arithmetic at
  the inputs where that error decides a result: the argument of \<open>acos\<close> for the point
  \<open>(-12.0997, -77.0352)\<close> against itself, and \<open>a\<close> for the antipodal endpoints
  \<open>(0.08, 0)\<close> and \<open>(-0.08, 180)\<close> in either order, are exactly 1 and are computed as
  \<open>1 + 2^-52\<close>. At every other input the error is taken as 0: it is below \<open>10^-15\<close>
  there, and changes none of the results the examples show.
\<close>

definition example_platform :: platform where
  "example_platform =
     \<lparr>pg_acos_err =
        (\<lambda>p1 p2 lat lng.
           if p1 = - 12.0997 \<and> p2 = - 77.0352 \<and> lat = - 12.0997 \<and> lng = - 77.0352
           then 1 / 2 ^ 52 else 0),
      js_a_err =
        (\<lambda>lat1 lng1 lat2 lng2.
           if (lat1 = 0.08 \<and> lng1 = 0 \<and> lat2 = - 0.08 \<and> lng2 = 180)
              \<or> (lat1 = - 0.08 \<and> lng1 = 180 \<and> lat2 = 0.08 \<and> lng2 = 0)
           then 1 / 2 ^ 52 else 0)\<rparr>"

text \<open>
  A small store: an accident zone and a crime zone at the point \<open>(0, 0)\<close>, and a danger
  zone at its antipode on the equator.
\<close>

definition example_zone :: "nat \<Rightarrow> js_string \<Rightarrow> int \<Rightarrow> int \<Rightarrow> real \<Rightarrow> real \<Rightarrow> heat_zone" where
  "example_zone i t n c lat lng =
     \<lparr>hz_id = i, hz_uuid = str ''hz'' @ [i], hz_latitude = lat, hz_longitude = lng,
      intensity = n, zone_type = t, last_incident_at = 0, incident_count = c,
      hz_created_at = 0, hz_updated_at = 0\<rparr>"

definition example_store :: store where
  "example_store =
     \<lparr>heat_zones =
        [example_zone 1 (str ''accident'') 6 8 0 0,
         example_zone 2 (str ''crime'') 3 6 0 0,
         example_zone 3 (str ''danger'') 9 10 0 180],
      heat_zones_seq = 4, help_points = [], reports = []\<rparr>"

definition empty_store :: store where
  "empty_store = \<lparr>heat_zones = [], heat_zones_seq = 1, help_points = [], reports = []\<rparr>"

definition no_read_faults :: read_env where
  "no_read_faults = \<lparr>zones_query_fails = False, help_query_fails = False\<rparr>"

definition example_query :: score_query where
  "example_query = \<lparr>q_lat = Some 0, q_lng = Some 0, q_radius = None\<rparr>"

definition example_route :: route_body where
  "example_route =
     \<lparr>b_originLat = Some 0, b_originLng = Some 0, b_originAddress = None,
      b_destinationLat = Some 0, b_destinationLng = Some 0, b_destinationAddress = None\<rparr>"

text \<open>The heat zones of the seed script, in a fresh table.\<close>

definition seed_zone :: "nat \<Rightarrow> real \<Rightarrow> real \<Rightarrow> int \<Rightarrow> js_string \<Rightarrow> int \<Rightarrow> heat_zone" where
  "seed_zone i lat lng n t c =
     \<lparr>hz_id = i, hz_uuid = str ''hz-00'' @ [48 + i], hz_latitude = lat, hz_longitude = lng,
      intensity = n, zone_type = t, last_incident_at = 0, incident_count = c,
      hz_created_at = 0, hz_updated_at = 0\<rparr>"

definition seed_heat_zones :: "heat_zone list" where
  "seed_heat_zones =
     [seed_zone 1 (- 12.0464) (- 77.0428) 7 (str ''crime'') 15,
      seed_zone 2 (- 12.0556) (- 77.0864) 5 (str ''accident'') 8,
      seed_zone 3 (- 12.1186) (- 77.0286) 3 (str ''congestion'') 12,
      seed_zone 4 (- 12.0789) (- 77.0389) 6 (str ''danger'') 10,
      seed_zone 5 (- 12.0986) (- 77.0352) 4 (str ''crime'') 6,
      seed_zone 6 (- 12.1097) (- 77.0344) 8 (str ''accident'') 20,
      seed_zone 7 (- 12.0812) (- 77.0049) 2 (str ''congestion'') 5,
      seed_zone 8 (- 12.1019) (- 76.9989) 5 (str ''crime'') 9]"

definition seed_store :: store where
  "seed_store = \<lparr>heat_zones = seed_heat_zones, heat_zones_seq = 9, help_points = [], reports = []\<rparr>"

text \<open>Environments for the examples: one without faults, one whose zone query fails.\<close>

definition example_env :: write_env where
  "example_env =
     \<lparr>now = 7, report_uuid = str ''r1'', new_uuid = str ''u1'', report_insert_fails = False,
      zone_select_fails = False,
      zone_update_fails = False, zone_insert_fails = False\<rparr>"

definition failing_env :: write_env where
  "failing_env =
     \<lparr>now = 7, report_uuid = str ''r1'', new_uuid = str ''u1'', report_insert_fails = False,
      zone_select_fails = True,
      zone_update_fails = True, zone_insert_fails = True\<rparr>"

definition example_report :: report_body where
  "example_report =
     \<lparr>b_incidentType = Some (str '' Robo a mano armada ''), b_latitude = Some 0,
      b_longitude = Some 0, b_severity = None\<rparr>"

text \<open>A route whose two endpoints differ, both within 2 km of the point \<open>(0, 0)\<close>.\<close>

definition example_route_apart :: route_body where
  "example_route_apart =
     \<lparr>b_originLat = Some 0, b_originLng = Some 0, b_originAddress = None,
      b_destinationLat = Some 0, b_destinationLng = Some (1 / 100), b_destinationAddress = None\<rparr>"


text \<open>A route between two antipodal points.\<close>

definition example_route_antipodal :: route_body where
  "example_route_antipodal =
     \<lparr>b_originLat = Some 0.08, b_originLng = Some 0, b_originAddress = None,
      b_destinationLat = Some (- 0.08), b_destinationLng = Some 180, b_destinationAddress = None\<rparr>"

text \<open>Eleven reports of a robbery at one point.\<close>

definition eleven_reports :: "(write_env \<times> real \<times> real \<times> js_string) list" where
  "eleven_reports = replicate 11 (example_env, - 12.0997, - 77.0352, str ''Robo'')"

section \<open>Scoring: the reduction and the handlers\<close>

lemma fold_score_sum:
  "fold (\<lambda>zone safetyScore. safetyScore - row_intensity zone * 2) rows x
     = x - 2 * sum_list (map row_intensity rows)"
  by (induction rows arbitrary: x) auto

lemma fold_score_step:
  "fold score_step rows (x, c, a) =
     (x - 2 * sum_list (map row_intensity rows),
      c + length (filter (\<lambda>r. row_zone_type r = str ''crime'') rows),
      a + length (filter (\<lambda>r. row_zone_type r = str ''accident'') rows))"
  by (induction rows arbitrary: x c a) (auto simp: score_step_def)

lemma score_rows_sum:
  "score_rows rows = clamp_score (100 - 2 * sum_list (map row_intensity rows))"
  by (simp add: score_rows_def fold_score_sum)

lemma score_rows_mset:
  assumes "mset rows' = mset rows"
  shows "score_rows rows' = score_rows rows"
proof -
  have "mset (map row_intensity rows') = mset (map row_intensity rows)"
    using assms by (metis mset_map)
  then have "sum_list (map row_intensity rows') = sum_list (map row_intensity rows)"
    by (metis sum_mset_sum_list)
  then show ?thesis by (simp add: score_rows_sum)
qed

lemma safety_score_Ok:
  assumes "safety_score P e q s = Ok200 r"
  obtains lat lng where "q_lat q = Some lat" "q_lng q = Some lng"
    "\<not> zones_query_fails e" "\<not> help_query_fails e"
    "\<not> select_zones_within_raises P lat lng s"
    "sc_safetyScore r = score_rows (select_zones_within P lat lng (case q_radius q of None \<Rightarrow> 5 | Some x \<Rightarrow> x) s)"
    "sc_safetyLevel r = safety_level (sc_safetyScore r)"
    "sc_dangerZones r = length (select_zones_within P lat lng (case q_radius q of None \<Rightarrow> 5 | Some x \<Rightarrow> x) s)"
    "sc_crimeZones r = length (filter (\<lambda>r. row_zone_type r = str ''crime'') (select_zones_within P lat lng (case q_radius q of None \<Rightarrow> 5 | Some x \<Rightarrow> x) s))"
    "sc_accidentZones r = length (filter (\<lambda>r. row_zone_type r = str ''accident'') (select_zones_within P lat lng (case q_radius q of None \<Rightarrow> 5 | Some x \<Rightarrow> x) s))"
  using assms
  by (auto simp: safety_score_def Let_def fold_score_step score_rows_sum split: option.splits if_splits)

lemma calculate_route_Ok:
  assumes "calculate_route P e b s = Ok200 r"
  obtains oLat oLng dLat dLng where
    "b_originLat b = Some oLat" "b_originLng b = Some oLng"
    "b_destinationLat b = Some dLat" "b_destinationLng b = Some dLng"
    "\<bar>oLat\<bar> \<le> 90" "\<bar>oLng\<bar> \<le> 180" "\<bar>dLat\<bar> \<le> 90" "\<bar>dLng\<bar> \<le> 180"
    "\<not> zones_query_fails e" "\<not> help_query_fails e"
    "\<not> select_zones_in_route_raises P oLat oLng dLat dLng s"
    "rt_safetyScore r = score_rows (select_zones_in_route P oLat oLng dLat dLng s)"
    "rt_safetyLevel r = safety_level (rt_safetyScore r)"
    "rt_dangerZones r = length (select_zones_in_route P oLat oLng dLat dLng s)"
    "rt_distanceKm r = map_option toFixed2 (haversine P oLat oLng dLat dLng)"
    "rt_estimatedTimeMin r =
       map_option (\<lambda>d. Math_round ((d / 30) * 60)) (haversine P oLat oLng dLat dLng)"
  using assms
  by (auto simp: calculate_route_def route_validation_def isFloat_def Let_def split: option.splits if_splits)

lemma sum_list_filter_indices:
  fixes f :: "'a \<Rightarrow> int"
  shows "sum_list (map f (filter P xs)) = (\<Sum>i\<in>{i. i < length xs \<and> P (xs ! i)}. f (xs ! i))"
proof (induction xs rule: rev_induct)
  case Nil
  then show ?case by simp
next
  case (snoc x xs)
  let ?I = "{i. i < length xs \<and> P (xs ! i)}"
  have old: "(\<Sum>i\<in>?I. f ((xs @ [x]) ! i)) = (\<Sum>i\<in>?I. f (xs ! i))"
    by (rule sum.cong) (auto simp: nth_append)
  show ?case
  proof (cases "P x")
    case True
    have "{i. i < length (xs @ [x]) \<and> P ((xs @ [x]) ! i)} = insert (length xs) ?I"
      using True by (auto simp: nth_append less_Suc_eq)
    moreover have "finite ?I" "length xs \<notin> ?I" by auto
    ultimately show ?thesis using True snoc old by simp
  next
    case False
    have "{i. i < length (xs @ [x]) \<and> P ((xs @ [x]) ! i)} = ?I"
      using False by (auto simp: nth_append less_Suc_eq)
    then show ?thesis using False snoc old by simp
  qed
qed

lemma near_indices_union:
  "near_indices P a b r s \<union> near_indices P c d r s =
     {i. i < length (heat_zones s) \<and>
         (sql_distance P a b (hz_latitude (heat_zones s ! i)) (hz_longitude (heat_zones s ! i)) \<le> r
          \<or> sql_distance P c d (hz_latitude (heat_zones s ! i)) (hz_longitude (heat_zones s ! i)) \<le> r)}"
  by (auto simp: near_indices_def)

lemma route_rows_intensity_sum:
  "sum_list (map row_intensity (select_zones_in_route P a b c d s)) =
     (\<Sum>i\<in>near_indices P a b 2 s \<union> near_indices P c d 2 s. intensity (heat_zones s ! i))"
proof -
  have "map row_intensity (select_zones_in_route P a b c d s) =
          map intensity (filter (\<lambda>z. sql_distance P a b (hz_latitude z) (hz_longitude z) \<le> 2
                                   \<or> sql_distance P c d (hz_latitude z) (hz_longitude z) \<le> 2) (heat_zones s))"
    by (simp add: select_zones_in_route_def zone_row_of_def comp_def)
  then show ?thesis
    by (simp only: sum_list_filter_indices near_indices_union)
qed

lemma route_rows_length:
  "length (select_zones_in_route P a b c d s) = card (near_indices P a b 2 s \<union> near_indices P c d 2 s)"
  by (simp add: select_zones_in_route_def near_indices_union length_filter_conv_card)

section \<open>The two distance formulas\<close>

lemma dot_bounds:
  fixes c1 c2 s1 s2 k :: real
  assumes "c1\<^sup>2 + s1\<^sup>2 = 1" "c2\<^sup>2 + s2\<^sup>2 = 1" "\<bar>k\<bar> \<le> 1"
  shows "\<bar>c1 * c2 * k + s1 * s2\<bar> \<le> 1"
proof -
  have "\<bar>c1 * c2 * k\<bar> \<le> \<bar>c1 * c2\<bar>"
    using assms(3) by (simp add: abs_mult mult_left_le)
  moreover have "2 * \<bar>c1 * c2\<bar> \<le> c1\<^sup>2 + c2\<^sup>2"
    using sum_squares_bound [of c1 c2] sum_squares_bound [of "- c1" c2]
    by (simp add: abs_le_iff)
  moreover have "2 * \<bar>s1 * s2\<bar> \<le> s1\<^sup>2 + s2\<^sup>2"
    using sum_squares_bound [of s1 s2] sum_squares_bound [of "- s1" s2]
    by (simp add: abs_le_iff)
  ultimately show ?thesis using assms(1,2) by linarith
qed

lemma central_cos_bounds: "\<bar>central_cos lat1 lng1 lat2 lng2\<bar> \<le> 1"
  unfolding central_cos_def
  using dot_bounds [of "cos (radians lat1)" "sin (radians lat1)" "cos (radians lat2)"
      "sin (radians lat2)" "cos (radians lng2 - radians lng1)"]
  by (simp add: abs_le_iff)

lemma central_cos_same: "central_cos lat lng lat lng = 1"
  by (simp add: central_cos_def)

lemma central_cos_sym: "central_cos lat1 lng1 lat2 lng2 = central_cos lat2 lng2 lat1 lng1"
proof -
  have "cos (radians lng2 - radians lng1) = cos (radians lng1 - radians lng2)"
    using cos_minus [of "radians lng1 - radians lng2"] by simp
  then show ?thesis by (simp add: central_cos_def mult.commute)
qed

lemma acos_arg_eq:
  "acos_arg P p1 p2 lat lng = central_cos p1 p2 lat lng + pg_acos_err P p1 p2 lat lng"
  by (simp add: acos_arg_def central_cos_def)

lemma half_angle: "sin (x / 2) * sin (x / 2) = (1 - cos x) / 2" for x :: real
  using cos_double_sin [of "x / 2"] by (simp add: power2_eq_square)

lemma exact_a_eq:
  "sin ((lat2 - lat1) * pi / 180 / 2) * sin ((lat2 - lat1) * pi / 180 / 2) +
   cos (lat1 * pi / 180) * cos (lat2 * pi / 180) *
   sin ((lng2 - lng1) * pi / 180 / 2) * sin ((lng2 - lng1) * pi / 180 / 2)
   = (1 - central_cos lat1 lng1 lat2 lng2) / 2"
proof -
  have d1: "(lat2 - lat1) * pi / 180 = radians lat2 - radians lat1"
    and d2: "(lng2 - lng1) * pi / 180 = radians lng2 - radians lng1"
    by (simp_all add: radians_def field_simps)
  have "sin ((radians lat2 - radians lat1) / 2) * sin ((radians lat2 - radians lat1) / 2) +
        cos (radians lat1) * cos (radians lat2) *
        (sin ((radians lng2 - radians lng1) / 2) * sin ((radians lng2 - radians lng1) / 2))
      = (1 - (cos (radians lat1) * cos (radians lat2) * cos (radians lng2 - radians lng1)
           + sin (radians lat1) * sin (radians lat2))) / 2"
    unfolding half_angle cos_diff [of "radians lat2" "radians lat1"]
    by (simp add: field_simps)
  then show ?thesis
    unfolding d1 d2 central_cos_def by (simp add: radians_def mult.assoc)
qed

lemma haversine_a_eq:
  "haversine_a P lat1 lng1 lat2 lng2 =
     (1 - central_cos lat1 lng1 lat2 lng2) / 2
     + (if lat1 = lat2 \<and> lng1 = lng2 then 0 else js_a_err P lat1 lng1 lat2 lng2)"
  unfolding haversine_a_def Let_def exact_a_eq ..

lemma haversine_a_same: "haversine_a P lat lng lat lng = 0"
  by (simp add: haversine_a_eq central_cos_same)

lemma haversine_a_range:
  assumes "(lat1 = lat2 \<and> lng1 = lng2) \<or> js_a_err P lat1 lng1 lat2 lng2 = 0"
  shows "0 \<le> haversine_a P lat1 lng1 lat2 lng2 \<and> haversine_a P lat1 lng1 lat2 lng2 \<le> 1"
proof -
  have "haversine_a P lat1 lng1 lat2 lng2 = (1 - central_cos lat1 lng1 lat2 lng2) / 2"
    using assms by (auto simp: haversine_a_eq)
  then show ?thesis using central_cos_bounds [of lat1 lng1 lat2 lng2] by (simp add: abs_le_iff)
qed

lemma atan2_half_angle:
  assumes "0 \<le> t" "t \<le> pi"
  shows "2 * Math_atan2 (sqrt ((1 - cos t) / 2)) (sqrt (1 - (1 - cos t) / 2)) = t"
proof -
  have h: "0 \<le> t / 2" "t / 2 \<le> pi / 2" using assms by auto
  have s: "sqrt ((1 - cos t) / 2) = sin (t / 2)"
  proof -
    have "(1 - cos t) / 2 = (sin (t / 2))\<^sup>2"
      using half_angle [of t] by (simp add: power2_eq_square)
    moreover have "0 \<le> sin (t / 2)" using h by (intro sin_ge_zero) auto
    ultimately show ?thesis by simp
  qed
  have c: "sqrt (1 - (1 - cos t) / 2) = cos (t / 2)"
  proof -
    have "cos t = 2 * (cos (t / 2))\<^sup>2 - 1"
      using cos_double_cos [of "t / 2"] by simp
    then have "1 - (1 - cos t) / 2 = (cos (t / 2))\<^sup>2"
      by (simp add: field_simps)
    moreover have "0 \<le> cos (t / 2)" using h by (intro cos_ge_zero) auto
    ultimately show ?thesis by simp
  qed
  show ?thesis
  proof (cases "t = pi")
    case True
    then show ?thesis unfolding s c by (simp add: Math_atan2_def)
  next
    case False
    then have lt: "t / 2 < pi / 2" using assms by auto
    then have "0 < cos (t / 2)" using h by (intro cos_gt_zero_pi) auto
    moreover have "arctan (sin (t / 2) / cos (t / 2)) = t / 2"
      using arctan_tan [of "t / 2"] h lt by (simp add: tan_def)
    ultimately show ?thesis unfolding s c by (simp add: Math_atan2_def)
  qed
qed


text \<open>Without rounding error the Haversine computation gives the great-circle distance.\<close>

lemma haversine_exact:
  assumes "(lat1 = lat2 \<and> lng1 = lng2) \<or> js_a_err P lat1 lng1 lat2 lng2 = 0"
  shows "haversine P lat1 lng1 lat2 lng2 = Some (6371 * arccos (central_cos lat1 lng1 lat2 lng2))"
proof -
  let ?X = "central_cos lat1 lng1 lat2 lng2"
  have X: "- 1 \<le> ?X" "?X \<le> 1"
    using central_cos_bounds [of lat1 lng1 lat2 lng2] by (simp_all add: abs_le_iff)
  have t: "0 \<le> arccos ?X" "arccos ?X \<le> pi" "cos (arccos ?X) = ?X"
    using arccos [OF X] by simp_all
  have a: "haversine_a P lat1 lng1 lat2 lng2 = (1 - ?X) / 2"
    using assms by (auto simp: haversine_a_eq)
  have r: "\<not> ((1 - ?X) / 2 < 0 \<or> 1 < (1 - ?X) / 2)" using X by simp
  have "haversine P lat1 lng1 lat2 lng2 =
          Some (6371 * (2 * Math_atan2 (sqrt ((1 - ?X) / 2)) (sqrt (1 - (1 - ?X) / 2))))"
    unfolding haversine_def Let_def a using r by (simp only: if_False)
  also have "2 * Math_atan2 (sqrt ((1 - ?X) / 2)) (sqrt (1 - (1 - ?X) / 2)) = arccos ?X"
    using atan2_half_angle [OF t(1,2)] unfolding t(3) by simp
  finally show ?thesis .
qed

lemma haversine_same: "haversine P lat lng lat lng = Some 0"
  using haversine_exact [of lat lat lng lng P] by (simp add: central_cos_same)

text \<open>A rounding of \<open>a\<close> above 1 makes the distance NaN.\<close>

lemma haversine_nan:
  "1 < haversine_a P lat1 lng1 lat2 lng2 \<Longrightarrow> haversine P lat1 lng1 lat2 lng2 = None"
  by (simp add: haversine_def)

text \<open>
  The distance is symmetric, NaN included, on a platform whose rounding error is: in
  IEEE arithmetic \<open>x - y = - (y - x)\<close>, products commute and do not see the sign of a
  square.
\<close>

lemma haversine_sym:
  assumes "js_a_err P lat1 lng1 lat2 lng2 = js_a_err P lat2 lng2 lat1 lng1"
  shows "haversine P lat1 lng1 lat2 lng2 = haversine P lat2 lng2 lat1 lng1"
proof -
  have "haversine_a P lat1 lng1 lat2 lng2 = haversine_a P lat2 lng2 lat1 lng1"
    using assms central_cos_sym [of lat1 lng1 lat2 lng2] by (auto simp: haversine_a_eq)
  then show ?thesis by (simp add: haversine_def)
qed

lemma sql_distance_exact:
  assumes "pg_acos_err P p1 p2 lat lng = 0"
  shows "sql_distance P p1 p2 lat lng = 6371 * arccos (central_cos p1 p2 lat lng)"
    and "\<not> acos_raises P p1 p2 lat lng"
  using assms central_cos_bounds [of p1 p2 lat lng]
  by (simp_all add: sql_distance_def acos_raises_def acos_arg_eq abs_le_iff)

lemma central_angle_equator:
  assumes "0 \<le> lng - p" "lng - p \<le> 180"
  shows "arccos (central_cos 0 p 0 lng) = (lng - p) * pi / 180"
proof -
  have d: "radians lng - radians p = (lng - p) * pi / 180"
    by (simp add: radians_def algebra_simps diff_divide_distrib)
  have a: "arccos (cos ((lng - p) * pi / 180)) = (lng - p) * pi / 180"
  proof (rule arccos_cos)
    show "0 \<le> (lng - p) * pi / 180" using assms by simp
    have "(lng - p) * pi \<le> 180 * pi" using assms by (intro mult_right_mono) simp_all
    then show "(lng - p) * pi / 180 \<le> pi" by simp
  qed
  have "central_cos 0 p 0 lng = cos (radians lng - radians p)"
    by (simp add: central_cos_def radians_def)
  then have "arccos (central_cos 0 p 0 lng) = arccos (cos ((lng - p) * pi / 180))"
    unfolding d by (simp only:)
  then show ?thesis unfolding a .
qed

section \<open>Bounds on pi and on small angles\<close>




lemma one_minus_cos_le: "1 - cos x \<le> x\<^sup>2 / 2" for x :: real
proof -
  have "\<bar>sin (x / 2)\<bar> \<le> \<bar>x / 2\<bar>" by (rule abs_sin_x_le_abs_x)
  then have "(sin (x / 2))\<^sup>2 \<le> (x / 2)\<^sup>2" by (simp only: abs_le_square_iff)
  moreover have "1 - cos x = 2 * (sin (x / 2))\<^sup>2"
    using half_angle [of x] by (simp add: power2_eq_square)
  ultimately show ?thesis by (simp add: power2_eq_square)
qed

lemma sin_ge_half: "x / 2 \<le> sin x" if "0 \<le> x" "x \<le> 1" for x :: real
proof -
  have "(\<Sum>m<3. sin_coeff m * x ^ m) = x"
    by (simp add: sin_coeff_def eval_nat_numeral lessThan_Suc)
  then have "\<bar>sin x - x\<bar> \<le> inverse (fact 3) * \<bar>x\<bar> ^ 3"
    using Maclaurin_sin_bound [of x 3] by simp
  moreover have "inverse (fact 3) * \<bar>x\<bar> ^ 3 = x ^ 3 / 6"
    using that by (simp add: fact_numeral)
  ultimately have "x - x ^ 3 / 6 \<le> sin x"
    by linarith
  moreover have "x ^ 3 \<le> x"
    using that by (simp add: power_le_one_iff eval_nat_numeral mult_left_le mult_le_one)
  ultimately show ?thesis using that by linarith
qed

lemma one_minus_cos_ge: "x\<^sup>2 / 8 \<le> 1 - cos x" if "0 \<le> x" "x \<le> 2" for x :: real
proof -
  have "x / 2 / 2 \<le> sin (x / 2)" using that by (intro sin_ge_half) auto
  moreover have "0 \<le> x / 2 / 2" using that by simp
  ultimately have "(x / 2 / 2)\<^sup>2 \<le> (sin (x / 2))\<^sup>2" by (rule power_mono)
  moreover have "1 - cos x = 2 * (sin (x / 2))\<^sup>2"
    using half_angle [of x] by (simp add: power2_eq_square)
  ultimately show ?thesis by (simp add: power2_eq_square)
qed

lemma cos_product_le_one: "cos a * cos b \<le> 1" for a b :: real
proof -
  have "\<bar>cos a * cos b\<bar> \<le> 1 * 1"
    unfolding abs_mult by (intro mult_mono) auto
  then show ?thesis by linarith
qed



section \<open>Rounding\<close>

lemma round_half_error: "\<bar>real_of_int \<lfloor>y + 1 / 2\<rfloor> - y\<bar> \<le> 1 / 2" for y :: real
proof -
  define n where "n = \<lfloor>y + 1 / 2\<rfloor>"
  have "real_of_int n \<le> y + 1 / 2" "y + 1 / 2 < real_of_int n + 1"
    unfolding n_def by linarith+
  then have "\<bar>real_of_int n - y\<bar> \<le> 1 / 2" by linarith
  then show ?thesis unfolding n_def .
qed

lemma scaled_round_error:
  fixes K y :: real
  assumes "0 < K"
  shows "\<bar>real_of_int \<lfloor>y * K + 1 / 2\<rfloor> / K - y\<bar> \<le> 1 / (2 * K)"
proof -
  have "real_of_int \<lfloor>y * K + 1 / 2\<rfloor> / K - y = (real_of_int \<lfloor>y * K + 1 / 2\<rfloor> - y * K) / K"
    using assms by (simp add: diff_divide_distrib)
  then have "\<bar>real_of_int \<lfloor>y * K + 1 / 2\<rfloor> / K - y\<bar> = \<bar>real_of_int \<lfloor>y * K + 1 / 2\<rfloor> - y * K\<bar> / K"
    using assms by simp
  also have "\<dots> \<le> (1 / 2) / K"
    using assms round_half_error [of "y * K"] by (intro divide_right_mono) auto
  finally show ?thesis by simp
qed




lemma numeric_8_error: "\<bar>numeric_8 x - x\<bar> \<le> 1 / (2 * 10 ^ 8)"
proof (cases "x < 0")
  case True
  have "numeric_8 x - x = - (real_of_int \<lfloor>(- x) * 10 ^ 8 + 1 / 2\<rfloor> / 10 ^ 8 - (- x))"
    using True by (simp add: numeric_8_def)
  then have "\<bar>numeric_8 x - x\<bar> = \<bar>real_of_int \<lfloor>(- x) * 10 ^ 8 + 1 / 2\<rfloor> / 10 ^ 8 - (- x)\<bar>"
    by (simp only: abs_minus_cancel)
  then show ?thesis using scaled_round_error [of "10 ^ 8" "- x"] by simp
next
  case False
  have "numeric_8 x - x = real_of_int \<lfloor>x * 10 ^ 8 + 1 / 2\<rfloor> / 10 ^ 8 - x"
    using False by (simp add: numeric_8_def)
  then have "\<bar>numeric_8 x - x\<bar> = \<bar>real_of_int \<lfloor>x * 10 ^ 8 + 1 / 2\<rfloor> / 10 ^ 8 - x\<bar>"
    by (simp only:)
  then show ?thesis using scaled_round_error [of "10 ^ 8" x] by simp
qed

lemma numeric_8_fits:
  "\<bar>x\<bar> \<le> 90 \<Longrightarrow> \<bar>numeric_8 x\<bar> < 100"
  "\<bar>x\<bar> \<le> 180 \<Longrightarrow> \<bar>numeric_8 x\<bar> < 1000"
proof -
  have "\<bar>numeric_8 x - x\<bar> \<le> 1" using numeric_8_error [of x] by simp
  then show "\<bar>x\<bar> \<le> 90 \<Longrightarrow> \<bar>numeric_8 x\<bar> < 100"
    and "\<bar>x\<bar> \<le> 180 \<Longrightarrow> \<bar>numeric_8 x\<bar> < 1000"
    by linarith+
qed

section \<open>The handlers on the example data\<close>

lemma example_platform_exact [simp]:
  "pg_acos_err example_platform 0 p lat lng = 0"
  "js_a_err example_platform 0 lng1 lat2 lng2 = 0"
  by (simp_all add: example_platform_def)

lemma example_no_raise [simp]: "\<not> acos_raises example_platform 0 p lat lng"
  by (rule sql_distance_exact(2)) simp

lemma sql_distance_equator:
  assumes "0 \<le> lng - p" "lng - p \<le> 180"
  shows "sql_distance example_platform 0 p 0 lng = 6371 * ((lng - p) * pi / 180)"
  using sql_distance_exact(1) [of example_platform 0 p 0 lng] central_angle_equator [OF assms]
  by simp

lemma sql_distance_flip:
  "sql_distance example_platform 0 p 0 lng = sql_distance example_platform 0 lng 0 p"
  using sql_distance_exact(1) [of example_platform 0 p 0 lng]
    sql_distance_exact(1) [of example_platform 0 lng 0 p] central_cos_sym [of 0 p 0 lng]
  by simp

lemma sql_distance_origin [simp]: "sql_distance example_platform 0 0 0 0 = 0"
  using sql_distance_equator [of 0 0] by simp

lemma sql_distance_antipode [simp]: "sql_distance example_platform 0 0 0 180 = 6371 * pi"
  using sql_distance_equator [of 180 0] by simp

lemma far_away [simp]: "\<not> 6371 * pi \<le> 5" "\<not> 6371 * pi \<le> 2" "\<not> 6371 * pi \<le> 1"
  using pi_ge_two by auto

lemma zone_type_names_distinct:
  "str ''accident'' \<noteq> str ''crime''" "str ''accident'' \<noteq> str ''congestion''"
  "str ''accident'' \<noteq> str ''danger''" "str ''crime'' \<noteq> str ''congestion''"
  "str ''crime'' \<noteq> str ''danger''" "str ''congestion'' \<noteq> str ''danger''"
  by (simp_all add: str_def)

lemma example_rows:
  "select_zones_within example_platform 0 0 5 example_store =
     [\<lparr>row_zone_type = str ''accident'', row_intensity = 6, row_incident_count = 8\<rparr>,
      \<lparr>row_zone_type = str ''crime'', row_intensity = 3, row_incident_count = 6\<rparr>]"
  by (simp add: select_zones_within_def example_store_def example_zone_def zone_row_of_def)

lemma example_route_rows:
  "select_zones_in_route example_platform 0 0 0 0 example_store =
     [\<lparr>row_zone_type = str ''accident'', row_intensity = 6, row_incident_count = 8\<rparr>,
      \<lparr>row_zone_type = str ''crime'', row_intensity = 3, row_incident_count = 6\<rparr>]"
  by (simp add: select_zones_in_route_def example_store_def example_zone_def zone_row_of_def)

lemma example_queries_succeed [simp]:
  "\<not> select_zones_within_raises example_platform 0 p s"
  "\<not> count_help_points_within_raises example_platform 0 p s"
  "\<not> select_zones_in_route_raises example_platform 0 p 0 p' s"
  "\<not> select_help_points_in_route_raises example_platform 0 p 0 p' s"
  by (simp_all add: select_zones_within_raises_def count_help_points_within_raises_def
        select_zones_in_route_raises_def select_help_points_in_route_raises_def
        route_row_raises_def list_ex_iff)

lemma example_safety_score:
  "safety_score example_platform no_read_faults example_query example_store =
     Ok200 \<lparr>sc_safetyScore = 82, sc_safetyLevel = str ''high'', sc_dangerZones = 2,
            sc_crimeZones = 1, sc_accidentZones = 1, sc_helpPointsNearby = 0,
            sc_recommendation = str ''Zona segura''\<rparr>"
  by (simp add: safety_score_def example_query_def no_read_faults_def example_rows
        score_step_def clamp_score_def safety_level_def count_help_points_within_def
        zone_type_names_distinct zone_type_names_distinct [symmetric])
    (simp add: example_store_def)

lemma example_calculate_route:
  "calculate_route example_platform no_read_faults example_route example_store =
     Ok200 \<lparr>rt_origin = (0, 0, None), rt_destination = (0, 0, None),
            rt_safetyScore = 82, rt_safetyLevel = str ''high'', rt_distanceKm = Some 0,
            rt_estimatedTimeMin = Some 0, rt_dangerZones = 2, rt_helpPointsNearby = []\<rparr>"
  by (simp add: calculate_route_def example_route_def no_read_faults_def example_route_rows
        route_validation_def isFloat_def haversine_same toFixed2_def Math_round_def
        score_rows_def clamp_score_def safety_level_def select_help_points_in_route_def)
    (simp add: example_store_def)

lemma example_near: "near_indices example_platform 0 0 2 example_store = {0, 1}"
proof (rule set_eqI)
  fix i :: nat
  consider "i = 0" | "i = 1" | "i = 2" | "3 \<le> i" by linarith
  then show "i \<in> near_indices example_platform 0 0 2 example_store \<longleftrightarrow> i \<in> {0, 1}"
    by cases (simp_all add: near_indices_def example_store_def example_zone_def)
qed

lemma example_apart_distances:
  "sql_distance example_platform 0 (1 / 100) 0 0 \<le> 2"
  "\<not> sql_distance example_platform 0 (1 / 100) 0 180 \<le> 2"
proof -
  have "sql_distance example_platform 0 (1 / 100) 0 0 = sql_distance example_platform 0 0 0 (1 / 100)"
    by (rule sql_distance_flip)
  also have "\<dots> = 6371 * ((1 / 100 - 0) * pi / 180)" by (rule sql_distance_equator) simp_all
  finally have near: "sql_distance example_platform 0 (1 / 100) 0 0 = 6371 * pi / 18000" by simp
  show "sql_distance example_platform 0 (1 / 100) 0 0 \<le> 2" unfolding near using pi_less_4 by simp
  have "sql_distance example_platform 0 (1 / 100) 0 180 = 6371 * ((180 - 1 / 100) * pi / 180)"
    by (rule sql_distance_equator) simp_all
  then show "\<not> sql_distance example_platform 0 (1 / 100) 0 180 \<le> 2" using pi_ge_two by simp
qed

lemma example_apart_near:
  "near_indices example_platform 0 0 2 example_store = {0, 1}"
  "near_indices example_platform 0 (1 / 100) 2 example_store = {0, 1}"
proof -
  show "near_indices example_platform 0 0 2 example_store = {0, 1}" by (rule example_near)
  show "near_indices example_platform 0 (1 / 100) 2 example_store = {0, 1}"
  proof (rule set_eqI)
    fix i :: nat
    consider "i = 0" | "i = 1" | "i = 2" | "3 \<le> i" by linarith
    then show "i \<in> near_indices example_platform 0 (1 / 100) 2 example_store \<longleftrightarrow> i \<in> {0, 1}"
      by cases (simp_all add: near_indices_def example_store_def example_zone_def example_apart_distances)
  qed
qed

lemma example_route_apart_reply:
  "\<exists>r. calculate_route example_platform no_read_faults example_route_apart example_store = Ok200 r"
  by (simp add: calculate_route_def example_route_apart_def no_read_faults_def
        route_validation_def isFloat_def Let_def)

section \<open>Claims about scoring\<close>

text \<open>
  Claim C1. For every list of fetched zone rows with intensity sum \<open>S\<close>, the score is
  \<open>100 - 2 * S\<close> clamped to \<open>[0, 100]\<close>; rows fetched in another order give the same
  score; and the score in the reply of each of the two scoring handlers is this
  reduction over the rows the handler fetched.
\<close>

theorem safety_score_clamped_sum:
  "score_rows rows = max 0 (min 100 (100 - 2 * sum_list (map row_intensity rows)))
   \<and> (mset rows' = mset rows \<longrightarrow> score_rows rows' = score_rows rows)
   \<and> (safety_score P e q s = Ok200 r \<longrightarrow>
        sc_safetyScore r =
          score_rows (select_zones_within P (the (q_lat q)) (the (q_lng q))
                        (case q_radius q of None \<Rightarrow> 5 | Some x \<Rightarrow> x) s))
   \<and> (calculate_route P e b s = Ok200 r' \<longrightarrow>
        rt_safetyScore r' =
          score_rows (select_zones_in_route P (the (b_originLat b)) (the (b_originLng b))
                        (the (b_destinationLat b)) (the (b_destinationLng b)) s))"
proof (intro conjI impI)
  show "score_rows rows = max 0 (min 100 (100 - 2 * sum_list (map row_intensity rows)))"
    by (simp add: score_rows_sum clamp_score_def)
next
  assume "mset rows' = mset rows"
  then show "score_rows rows' = score_rows rows" by (rule score_rows_mset)
next
  assume "safety_score P e q s = Ok200 r"
  then show "sc_safetyScore r =
          score_rows (select_zones_within P (the (q_lat q)) (the (q_lng q))
                        (case q_radius q of None \<Rightarrow> 5 | Some x \<Rightarrow> x) s)"
    by (elim safety_score_Ok) simp
next
  assume "calculate_route P e b s = Ok200 r'"
  then show "rt_safetyScore r' =
          score_rows (select_zones_in_route P (the (b_originLat b)) (the (b_originLng b))
                        (the (b_destinationLat b)) (the (b_destinationLng b)) s)"
    by (elim calculate_route_Ok) simp
qed

theorem safety_score_clamped_sum_witness:
  "mset [zone_row_of (example_zone 2 (str ''crime'') 3 6 0 0),
         zone_row_of (example_zone 1 (str ''accident'') 6 8 0 0)]
     = mset (select_zones_within example_platform 0 0 5 example_store)
   \<and> (\<exists>r. safety_score example_platform no_read_faults example_query example_store = Ok200 r
           \<and> sc_safetyScore r = 82)
   \<and> (\<exists>r. calculate_route example_platform no_read_faults example_route example_store = Ok200 r
           \<and> rt_safetyScore r = 82)
   \<and> score_rows (select_zones_within example_platform 0 0 5 example_store) = 82
   \<and> score_rows [zone_row_of (example_zone 2 (str ''crime'') 3 6 0 0),
                  zone_row_of (example_zone 1 (str ''accident'') 6 8 0 0)] = 82"
  using safety_score_clamped_sum
    [of "select_zones_within example_platform 0 0 5 example_store"
        "[zone_row_of (example_zone 2 (str ''crime'') 3 6 0 0),
          zone_row_of (example_zone 1 (str ''accident'') 6 8 0 0)]"
        example_platform no_read_faults example_query example_store
        "\<lparr>sc_safetyScore = 82, sc_safetyLevel = str ''high'', sc_dangerZones = 2,
          sc_crimeZones = 1, sc_accidentZones = 1, sc_helpPointsNearby = 0,
          sc_recommendation = str ''Zona segura''\<rparr>"
        example_route
        "\<lparr>rt_origin = (0, 0, None), rt_destination = (0, 0, None),
          rt_safetyScore = 82, rt_safetyLevel = str ''high'', rt_distanceKm = Some 0,
          rt_estimatedTimeMin = Some 0, rt_dangerZones = 2, rt_helpPointsNearby = []\<rparr>"]
  by (simp add: example_safety_score example_calculate_route example_rows
        example_zone_def zone_row_of_def)



text \<open>
  Claim C10. The field \<open>dangerZones\<close> of both replies is the number of all fetched
  zones, whatever their type: the number of rows of \<open>heat_zones\<close> that satisfy the
  proximity predicate of the query, with no condition on \<open>zone_type\<close>. Only
  \<open>crimeZones\<close> and \<open>accidentZones\<close> count the rows of one type.
\<close>

theorem dangerZones_counts_every_type:
  "(safety_score P e q s = Ok200 r \<longrightarrow>
      sc_dangerZones r =
        length (filter (\<lambda>z. sql_distance P (the (q_lat q)) (the (q_lng q)) (hz_latitude z) (hz_longitude z)
                             \<le> (case q_radius q of None \<Rightarrow> 5 | Some x \<Rightarrow> x)) (heat_zones s))
      \<and> sc_crimeZones r =
        length (filter (\<lambda>z. zone_type z = str ''crime'')
                 (filter (\<lambda>z. sql_distance P (the (q_lat q)) (the (q_lng q)) (hz_latitude z) (hz_longitude z)
                             \<le> (case q_radius q of None \<Rightarrow> 5 | Some x \<Rightarrow> x)) (heat_zones s)))
      \<and> sc_accidentZones r =
        length (filter (\<lambda>z. zone_type z = str ''accident'')
                 (filter (\<lambda>z. sql_distance P (the (q_lat q)) (the (q_lng q)) (hz_latitude z) (hz_longitude z)
                             \<le> (case q_radius q of None \<Rightarrow> 5 | Some x \<Rightarrow> x)) (heat_zones s))))
   \<and> (calculate_route P e b s = Ok200 r' \<longrightarrow>
      rt_dangerZones r' =
        length (filter (\<lambda>z. sql_distance P (the (b_originLat b)) (the (b_originLng b))
                               (hz_latitude z) (hz_longitude z) \<le> 2
                           \<or> sql_distance P (the (b_destinationLat b)) (the (b_destinationLng b))
                               (hz_latitude z) (hz_longitude z) \<le> 2) (heat_zones s)))"
proof (intro conjI impI)
  assume ok: "safety_score P e q s = Ok200 r"
  have types: "filter (\<lambda>r. row_zone_type r = t) (map zone_row_of zs)
                 = map zone_row_of (filter (\<lambda>z. zone_type z = t) zs)" for t zs
    by (induction zs) (simp_all add: zone_row_of_def)
  from ok show "sc_dangerZones r =
        length (filter (\<lambda>z. sql_distance P (the (q_lat q)) (the (q_lng q)) (hz_latitude z) (hz_longitude z)
                             \<le> (case q_radius q of None \<Rightarrow> 5 | Some x \<Rightarrow> x)) (heat_zones s))"
    by (elim safety_score_Ok) (simp add: select_zones_within_def)
  from ok show "sc_crimeZones r =
        length (filter (\<lambda>z. zone_type z = str ''crime'')
                 (filter (\<lambda>z. sql_distance P (the (q_lat q)) (the (q_lng q)) (hz_latitude z) (hz_longitude z)
                             \<le> (case q_radius q of None \<Rightarrow> 5 | Some x \<Rightarrow> x)) (heat_zones s)))"
    by (elim safety_score_Ok) (simp only: select_zones_within_def types length_map option.sel)
  from ok show "sc_accidentZones r =
        length (filter (\<lambda>z. zone_type z = str ''accident'')
                 (filter (\<lambda>z. sql_distance P (the (q_lat q)) (the (q_lng q)) (hz_latitude z) (hz_longitude z)
                             \<le> (case q_radius q of None \<Rightarrow> 5 | Some x \<Rightarrow> x)) (heat_zones s)))"
    by (elim safety_score_Ok) (simp only: select_zones_within_def types length_map option.sel)
next
  assume "calculate_route P e b s = Ok200 r'"
  then show "rt_dangerZones r' =
        length (filter (\<lambda>z. sql_distance P (the (b_originLat b)) (the (b_originLng b))
                               (hz_latitude z) (hz_longitude z) \<le> 2
                           \<or> sql_distance P (the (b_destinationLat b)) (the (b_destinationLng b))
                               (hz_latitude z) (hz_longitude z) \<le> 2) (heat_zones s))"
    by (elim calculate_route_Ok) (simp add: select_zones_in_route_def)
qed

theorem dangerZones_counts_every_type_witness:
  "(\<exists>r. safety_score example_platform no_read_faults example_query example_store = Ok200 r
         \<and> sc_dangerZones r = 2 \<and> sc_crimeZones r = 1 \<and> sc_accidentZones r = 1)
   \<and> (\<exists>r. calculate_route example_platform no_read_faults example_route example_store = Ok200 r
         \<and> rt_dangerZones r = 2)
   \<and> filter (\<lambda>z. zone_type z = str ''danger'')
        (filter (\<lambda>z. sql_distance example_platform 0 0 (hz_latitude z) (hz_longitude z) \<le> 5)
           (heat_zones example_store)) = []"
  using dangerZones_counts_every_type
    [of example_platform no_read_faults example_query example_store
        "\<lparr>sc_safetyScore = 82, sc_safetyLevel = str ''high'', sc_dangerZones = 2,
          sc_crimeZones = 1, sc_accidentZones = 1, sc_helpPointsNearby = 0,
          sc_recommendation = str ''Zona segura''\<rparr>"
        example_route
        "\<lparr>rt_origin = (0, 0, None), rt_destination = (0, 0, None),
          rt_safetyScore = 82, rt_safetyLevel = str ''high'', rt_distanceKm = Some 0,
          rt_estimatedTimeMin = Some 0, rt_dangerZones = 2, rt_helpPointsNearby = []\<rparr>"]
  by (simp add: example_safety_score example_calculate_route)
     (simp add: example_store_def example_zone_def str_def)

text \<open>
  Claim C9. The route evaluation scores the zones within 2 km of the origin or within
  2 km of the destination, each zone once: the penalty is summed over the union of
  the two sets of table positions, and \<open>dangerZones\<close> is the size of that union, so a
  zone near both endpoints counts once.
\<close>

theorem route_zone_union_counted_once:
  "calculate_route P e b s = Ok200 r \<longrightarrow>
     rt_safetyScore r =
       clamp_score (100 - 2 * (\<Sum>i\<in>near_indices P (the (b_originLat b)) (the (b_originLng b)) 2 s
                                  \<union> near_indices P (the (b_destinationLat b)) (the (b_destinationLng b)) 2 s.
                                intensity (heat_zones s ! i)))
     \<and> rt_dangerZones r =
       card (near_indices P (the (b_originLat b)) (the (b_originLng b)) 2 s
             \<union> near_indices P (the (b_destinationLat b)) (the (b_destinationLng b)) 2 s)"
proof
  assume "calculate_route P e b s = Ok200 r"
  then show "rt_safetyScore r =
       clamp_score (100 - 2 * (\<Sum>i\<in>near_indices P (the (b_originLat b)) (the (b_originLng b)) 2 s
                                  \<union> near_indices P (the (b_destinationLat b)) (the (b_destinationLng b)) 2 s.
                                intensity (heat_zones s ! i)))
     \<and> rt_dangerZones r =
       card (near_indices P (the (b_originLat b)) (the (b_originLng b)) 2 s
             \<union> near_indices P (the (b_destinationLat b)) (the (b_destinationLng b)) 2 s)"
    by (elim calculate_route_Ok)
       (simp add: score_rows_sum route_rows_intensity_sum route_rows_length)
qed

theorem route_zone_union_counted_once_witness:
  "(\<exists>r. calculate_route example_platform no_read_faults example_route_apart example_store = Ok200 r
        \<and> rt_safetyScore r = 82 \<and> rt_dangerZones r = 2)
   \<and> near_indices example_platform 0 0 2 example_store \<inter> near_indices example_platform 0 (1 / 100) 2 example_store = {0, 1}
   \<and> clamp_score (100 - 2 * (\<Sum>i\<in>{0, 1}. intensity (heat_zones example_store ! i))) = 82"
proof -
  have sum: "clamp_score (100 - 2 * (\<Sum>i\<in>{0, 1}. intensity (heat_zones example_store ! i))) = 82"
    by (simp add: example_store_def example_zone_def clamp_score_def)
  have fields: "the (b_originLat example_route_apart) = 0" "the (b_originLng example_route_apart) = 0"
    "the (b_destinationLat example_route_apart) = 0"
    "the (b_destinationLng example_route_apart) = 1 / 100"
    by (simp_all add: example_route_apart_def)
  obtain r where r: "calculate_route example_platform no_read_faults example_route_apart example_store = Ok200 r"
    using example_route_apart_reply by blast
  have "rt_safetyScore r = 82 \<and> rt_dangerZones r = 2"
    using route_zone_union_counted_once [of example_platform no_read_faults example_route_apart example_store r]
      r sum
    by (simp add: fields example_apart_near)
  then show ?thesis using r sum by (simp add: example_apart_near)
qed

section \<open>Routes on the example data\<close>










text \<open>The antipodal endpoints: in exact arithmetic \<open>a\<close> is 1 there.\<close>

lemma antipodal_central_cos:
  "central_cos 0.08 0 (- 0.08) 180 = - 1" "central_cos (- 0.08) 180 0.08 0 = - 1"
proof -
  define c s where "c = cos (radians 0.08)" and "s = sin (radians 0.08)"
  have one: "c * c + s * s = 1"
    using sin_cos_squared_add2 [of "radians 0.08"] by (simp add: power2_eq_square c_def s_def)
  have r: "radians (- 0.08) = - radians 0.08" "radians 180 = pi" "radians 0 = 0"
    by (simp_all add: radians_def)
  have "central_cos 0.08 0 (- 0.08) 180 = - (c * c + s * s)"
    unfolding central_cos_def r cos_minus sin_minus c_def [symmetric] s_def [symmetric]
    by simp
  then show "central_cos 0.08 0 (- 0.08) 180 = - 1" unfolding one .
  have "central_cos (- 0.08) 180 0.08 0 = - (c * c + s * s)"
    unfolding central_cos_def r cos_minus sin_minus c_def [symmetric] s_def [symmetric]
    by simp
  then show "central_cos (- 0.08) 180 0.08 0 = - 1" unfolding one .
qed

lemma antipodal_a:
  "haversine_a example_platform 0.08 0 (- 0.08) 180 = 1 + 1 / 2 ^ 52"
  "haversine_a example_platform (- 0.08) 180 0.08 0 = 1 + 1 / 2 ^ 52"
  unfolding haversine_a_eq antipodal_central_cos by (simp_all add: example_platform_def)

lemma antipodal_nan:
  "haversine example_platform 0.08 0 (- 0.08) 180 = None"
  "haversine example_platform (- 0.08) 180 0.08 0 = None"
  by (rule haversine_nan, simp only: antipodal_a, simp)+

lemma example_route_antipodal_reply:
  "calculate_route example_platform no_read_faults example_route_antipodal empty_store =
     Ok200 \<lparr>rt_origin = (0.08, 0, None), rt_destination = (- 0.08, 180, None),
            rt_safetyScore = 100, rt_safetyLevel = str ''high'', rt_distanceKm = None,
            rt_estimatedTimeMin = None, rt_dangerZones = 0, rt_helpPointsNearby = []\<rparr>"
proof -
  have rows: "select_zones_in_route example_platform 0.08 0 (- 0.08) 180 empty_store = []"
    "select_help_points_in_route example_platform 0.08 0 (- 0.08) 180 empty_store = []"
    "\<not> select_zones_in_route_raises example_platform 0.08 0 (- 0.08) 180 empty_store"
    "\<not> select_help_points_in_route_raises example_platform 0.08 0 (- 0.08) 180 empty_store"
    by (simp_all add: select_zones_in_route_def select_help_points_in_route_def empty_store_def
          select_zones_in_route_raises_def select_help_points_in_route_raises_def)
  show ?thesis
    using antipodal_nan(1) rows
    by (simp add: calculate_route_def example_route_antipodal_def no_read_faults_def Let_def
          route_validation_def isFloat_def score_rows_def clamp_score_def safety_level_def)
qed


section \<open>Claims about the distance and the travel time\<close>

text \<open>
  Claim C7. The distance the handler computes is zero for equal points; without
  rounding error it is the great-circle distance on a sphere of radius 6371, the radius
  times the central angle; and where it is a number it is the same number for the two
  orders of the points, on a platform whose rounding error is the same for both. But
  where the doubles round the intermediate \<open>a\<close> above 1, as they do for antipodal
  endpoints, \<open>Math.sqrt(1 - a)\<close> is NaN: the handler computes no distance, and its reply
  carries \<open>null\<close> for \<open>distanceKm\<close> and for \<open>estimatedTimeMin\<close>.
\<close>

theorem haversine_nan_above_one:
  "haversine P lat1 lng1 lat1 lng1 = Some 0
   \<and> (js_a_err P lat1 lng1 lat2 lng2 = 0 \<longrightarrow>
        haversine P lat1 lng1 lat2 lng2 = Some (6371 * arccos (central_cos lat1 lng1 lat2 lng2)))
   \<and> (js_a_err P lat1 lng1 lat2 lng2 = js_a_err P lat2 lng2 lat1 lng1
        \<and> haversine P lat1 lng1 lat2 lng2 = Some d \<longrightarrow>
        haversine P lat2 lng2 lat1 lng1 = Some d)
   \<and> (1 < haversine_a P lat1 lng1 lat2 lng2 \<longrightarrow>
        haversine P lat1 lng1 lat2 lng2 = None
        \<and> (calculate_route P e b s = Ok200 r
             \<and> b_originLat b = Some lat1 \<and> b_originLng b = Some lng1
             \<and> b_destinationLat b = Some lat2 \<and> b_destinationLng b = Some lng2 \<longrightarrow>
            rt_distanceKm r = None \<and> rt_estimatedTimeMin r = None))"
proof (intro conjI impI)
  show "haversine P lat1 lng1 lat1 lng1 = Some 0" by (rule haversine_same)
next
  assume "js_a_err P lat1 lng1 lat2 lng2 = 0"
  then show "haversine P lat1 lng1 lat2 lng2 = Some (6371 * arccos (central_cos lat1 lng1 lat2 lng2))"
    by (intro haversine_exact) simp
next
  assume "js_a_err P lat1 lng1 lat2 lng2 = js_a_err P lat2 lng2 lat1 lng1
          \<and> haversine P lat1 lng1 lat2 lng2 = Some d"
  then show "haversine P lat2 lng2 lat1 lng1 = Some d"
    using haversine_sym [of P lat1 lng1 lat2 lng2] by simp
next
  assume "1 < haversine_a P lat1 lng1 lat2 lng2"
  then show "haversine P lat1 lng1 lat2 lng2 = None" by (rule haversine_nan)
next
  assume a: "1 < haversine_a P lat1 lng1 lat2 lng2"
    and ok: "calculate_route P e b s = Ok200 r
             \<and> b_originLat b = Some lat1 \<and> b_originLng b = Some lng1
             \<and> b_destinationLat b = Some lat2 \<and> b_destinationLng b = Some lng2"
  have nan: "haversine P lat1 lng1 lat2 lng2 = None" using a by (rule haversine_nan)
  from ok have "calculate_route P e b s = Ok200 r" by simp
  then show "rt_distanceKm r = None" using ok nan by (elim calculate_route_Ok) simp
  from ok have "calculate_route P e b s = Ok200 r" by simp
  then show "rt_estimatedTimeMin r = None" using ok nan by (elim calculate_route_Ok) simp
qed

theorem haversine_nan_above_one_witness:
  "haversine_a example_platform 0.08 0 (- 0.08) 180 = 1 + 1 / 2 ^ 52
   \<and> haversine example_platform 0.08 0 (- 0.08) 180 = None
   \<and> haversine example_platform (- 0.08) 180 0.08 0 = None
   \<and> (\<exists>r. calculate_route example_platform no_read_faults example_route_antipodal empty_store = Ok200 r
          \<and> rt_distanceKm r = None \<and> rt_estimatedTimeMin r = None)
   \<and> haversine example_platform 0 0 0 (1 / 100) = Some (6371 * (1 / 100 * pi / 180))
   \<and> haversine example_platform 0 (1 / 100) 0 0 = Some (6371 * (1 / 100 * pi / 180))
   \<and> haversine example_platform 0.08 0 0.08 0 = Some 0"
proof -
  define r where "r =
    \<lparr>rt_origin = (0.08, 0, None), rt_destination = (- 0.08, 180 :: real, None :: js_string option),
     rt_safetyScore = 100, rt_safetyLevel = str ''high'', rt_distanceKm = None,
     rt_estimatedTimeMin = None, rt_dangerZones = 0, rt_helpPointsNearby = []\<rparr>"
  have ok: "calculate_route example_platform no_read_faults example_route_antipodal empty_store = Ok200 r"
    unfolding r_def by (rule example_route_antipodal_reply)
  have fields: "b_originLat example_route_antipodal = Some 0.08"
    "b_originLng example_route_antipodal = Some 0"
    "b_destinationLat example_route_antipodal = Some (- 0.08)"
    "b_destinationLng example_route_antipodal = Some 180"
    by (simp_all add: example_route_antipodal_def)
  have a: "1 < haversine_a example_platform 0.08 0 (- 0.08) 180"
    "1 < haversine_a example_platform (- 0.08) 180 0.08 0"
    unfolding antipodal_a by simp_all
  have "0 \<le> (1 / 100 :: real) - 0" "(1 / 100 :: real) - 0 \<le> 180" by simp_all
  then have "arccos (central_cos 0 0 0 (1 / 100)) = (1 / 100 - 0) * pi / 180"
    by (rule central_angle_equator)
  then have angle: "arccos (central_cos 0 0 0 (1 / 100)) = 1 / 100 * pi / 180"
    unfolding diff_zero .
  have err: "js_a_err example_platform 0 0 0 (1 / 100) = 0"
    "js_a_err example_platform 0 0 0 (1 / 100) = js_a_err example_platform 0 (1 / 100) 0 0"
    by simp_all
  have one: "haversine example_platform 0.08 0 (- 0.08) 180 = None
     \<and> rt_distanceKm r = None \<and> rt_estimatedTimeMin r = None"
    using haversine_nan_above_one [of example_platform "0.08" 0 "- 0.08" 180 0
        no_read_faults example_route_antipodal empty_store r] a(1) ok fields
    by blast
  have two: "haversine example_platform (- 0.08) 180 0.08 0 = None
     \<and> haversine example_platform 0.08 0 0.08 0 = Some 0"
    using haversine_nan_above_one [of example_platform "- 0.08" 180 "0.08" 0 0
        no_read_faults example_route_antipodal empty_store r]
      haversine_nan_above_one [of example_platform "0.08" 0 "0.08" 0 0
        no_read_faults example_route_antipodal empty_store r] a(2)
    by blast
  have three: "haversine example_platform 0 0 0 (1 / 100) = Some (6371 * (1 / 100 * pi / 180))
     \<and> haversine example_platform 0 (1 / 100) 0 0 = Some (6371 * (1 / 100 * pi / 180))"
    using haversine_nan_above_one [of example_platform 0 0 0 "1 / 100" "6371 * (1 / 100 * pi / 180)"
        no_read_faults example_route_antipodal empty_store r] err
    unfolding angle by blast
  show ?thesis using one two three ok antipodal_a(1) by blast
qed




section \<open>Classification of incident labels\<close>

lemma starts_with_iff: "starts_with s k \<longleftrightarrow> (\<exists>post. s = k @ post)"
  by (induction s k rule: starts_with.induct) auto

lemma js_includes_iff: "js_includes s k \<longleftrightarrow> (\<exists>pre post. s = pre @ k @ post)"
proof (induction s)
  case Nil
  then show ?case by auto
next
  case (Cons c cs)
  show ?case
  proof
    assume "js_includes (c # cs) k"
    then consider "starts_with (c # cs) k" | "js_includes cs k" by auto
    then show "\<exists>pre post. c # cs = pre @ k @ post"
    proof cases
      case 1
      then obtain post where "c # cs = [] @ k @ post" by (auto simp: starts_with_iff)
      then show ?thesis by blast
    next
      case 2
      then obtain pre post where "cs = pre @ k @ post" using Cons.IH by blast
      then have "c # cs = (c # pre) @ k @ post" by simp
      then show ?thesis by blast
    qed
  next
    assume "\<exists>pre post. c # cs = pre @ k @ post"
    then obtain pre post where eq: "c # cs = pre @ k @ post" by blast
    show "js_includes (c # cs) k"
    proof (cases pre)
      case Nil
      then have "\<exists>post. c # cs = k @ post" using eq by auto
      then have "starts_with (c # cs) k" by (simp only: starts_with_iff)
      then show ?thesis by simp
    next
      case (Cons p pre')
      then have "cs = pre' @ k @ post" using eq by simp
      then show ?thesis using Cons.IH by auto
    qed
  qed
qed

lemma map_eq_append_split:
  assumes "map f xs = ys @ zs"
  shows "\<exists>us vs. xs = us @ vs \<and> map f us = ys \<and> map f vs = zs"
proof (intro exI conjI)
  show "xs = take (length ys) xs @ drop (length ys) xs" by simp
  have "map f (take (length ys) xs) = take (length ys) (map f xs)" by (simp add: take_map)
  then show "map f (take (length ys) xs) = ys" using assms by simp
  have "map f (drop (length ys) xs) = drop (length ys) (map f xs)" by (simp add: drop_map)
  then show "map f (drop (length ys) xs) = zs" using assms by simp
qed

lemma includes_lower_iff:
  "js_includes (toLowerCase l) k \<longleftrightarrow>
     (\<exists>pre part post. l = pre @ part @ post \<and> toLowerCase part = k)"
proof
  assume "js_includes (toLowerCase l) k"
  then obtain pre post where "map lower_unit l = pre @ k @ post"
    by (auto simp: js_includes_iff toLowerCase_def)
  then obtain a vs where a: "l = a @ vs" "map lower_unit vs = k @ post"
    using map_eq_append_split by blast
  then obtain b c where "vs = b @ c" "map lower_unit b = k"
    using map_eq_append_split by blast
  with a have "l = a @ b @ c" "map lower_unit b = k" by simp_all
  then show "\<exists>pre part post. l = pre @ part @ post \<and> toLowerCase part = k"
    by (auto simp: toLowerCase_def)
next
  assume "\<exists>pre part post. l = pre @ part @ post \<and> toLowerCase part = k"
  then obtain pre part post where "l = pre @ part @ post" "map lower_unit part = k"
    by (auto simp: toLowerCase_def)
  then have "map lower_unit l = map lower_unit pre @ k @ map lower_unit post" by simp
  then have "\<exists>a b. toLowerCase l = a @ k @ b" unfolding toLowerCase_def by blast
  then show "js_includes (toLowerCase l) k" by (simp only: js_includes_iff)
qed

lemma keyword_lower:
  "toLowerCase (str ''accidente'') = str ''accidente''"
  "toLowerCase (str ''robo'') = str ''robo''"
  "toLowerCase (str ''crimen'') = str ''crimen''"
  "toLowerCase kw_congestion = kw_congestion"
  "toLowerCase kw_trafico = kw_trafico"
  by (simp_all add: toLowerCase_def str_def lower_unit_def kw_congestion_def kw_trafico_def)

lemma includes_keyword:
  "toLowerCase k = k \<Longrightarrow> js_includes (toLowerCase l) k \<longleftrightarrow> ci_contains l k"
  by (simp add: includes_lower_iff ci_contains_def)

lemma classify_examples:
  "classify (str ''Accidente de tr'' @ [225] @ str ''nsito'') = str ''accident''"
  "classify (str ''Robo a mano armada'') = str ''crime''"
  "classify (str ''Congesti'' @ [243] @ str ''n vehicular'') = str ''congestion''"
  "classify (str ''TR'' @ [193] @ str ''FICO LENTO'') = str ''congestion''"
  "classify (str ''Poste ca'' @ [237] @ str ''do'') = str ''danger''"
  "classify (str ''Robo tras accidente'') = str ''accident''"
  by (simp_all add: classify_def toLowerCase_def str_def lower_unit_def
        kw_congestion_def kw_trafico_def)

lemma classify_zone_type: "classify l \<in> set zone_types"
  by (simp add: classify_def zone_types_def)

text \<open>
  Claim C3. The zone type of a label is decided by case-insensitive substring matches
  in a fixed order, the first match winning: \<open>accidente\<close> gives \<open>accident\<close>; otherwise
  \<open>robo\<close> or \<open>crimen\<close> gives \<open>crime\<close>; otherwise the two accented keywords give
  \<open>congestion\<close>; every other label gives \<open>danger\<close>.
\<close>

theorem classify_priority:
  "classify l =
     (if ci_contains l (str ''accidente'') then str ''accident''
      else if ci_contains l (str ''robo'') \<or> ci_contains l (str ''crimen'') then str ''crime''
      else if ci_contains l kw_congestion \<or> ci_contains l kw_trafico then str ''congestion''
      else str ''danger'')"
  unfolding classify_def
  by (simp only: includes_keyword [OF keyword_lower(1)] includes_keyword [OF keyword_lower(2)]
        includes_keyword [OF keyword_lower(3)] includes_keyword [OF keyword_lower(4)]
        includes_keyword [OF keyword_lower(5)])

theorem classify_priority_witness:
  "classify (str ''Accidente de tr'' @ [225] @ str ''nsito'') = str ''accident''
   \<and> ci_contains (str ''Accidente de tr'' @ [225] @ str ''nsito'') (str ''accidente'')
   \<and> classify (str ''Robo a mano armada'') = str ''crime''
   \<and> \<not> ci_contains (str ''Robo a mano armada'') (str ''accidente'')
   \<and> classify (str ''Congesti'' @ [243] @ str ''n vehicular'') = str ''congestion''
   \<and> \<not> ci_contains (str ''Congesti'' @ [243] @ str ''n vehicular'') (str ''robo'')
   \<and> classify (str ''Poste ca'' @ [237] @ str ''do'') = str ''danger''
   \<and> \<not> ci_contains (str ''Poste ca'' @ [237] @ str ''do'') kw_trafico
   \<and> classify (str ''Robo tras accidente'') = str ''accident''
   \<and> ci_contains (str ''Robo tras accidente'') (str ''accidente'')"
proof -
  note d = zone_type_names_distinct zone_type_names_distinct [symmetric]
  have 1: "ci_contains (str ''Accidente de tr'' @ [225] @ str ''nsito'') (str ''accidente'')"
    using classify_priority [of "str ''Accidente de tr'' @ [225] @ str ''nsito''"]
    unfolding classify_examples by (simp add: d split: if_splits)
  have 2: "\<not> ci_contains (str ''Robo a mano armada'') (str ''accidente'')"
    using classify_priority [of "str ''Robo a mano armada''"]
    unfolding classify_examples by (simp add: d split: if_splits)
  have 3: "\<not> ci_contains (str ''Congesti'' @ [243] @ str ''n vehicular'') (str ''robo'')"
    using classify_priority [of "str ''Congesti'' @ [243] @ str ''n vehicular''"]
    unfolding classify_examples by (simp add: d split: if_splits)
  have 4: "\<not> ci_contains (str ''Poste ca'' @ [237] @ str ''do'') kw_trafico"
    using classify_priority [of "str ''Poste ca'' @ [237] @ str ''do''"]
    unfolding classify_examples by (simp add: d split: if_splits)
  have 5: "ci_contains (str ''Robo tras accidente'') (str ''accidente'')"
    using classify_priority [of "str ''Robo tras accidente''"]
    unfolding classify_examples by (simp add: d split: if_splits)
  show ?thesis using 1 2 3 4 5 classify_examples by blast
qed

section \<open>A stored coordinate stays near the coordinate given\<close>

lemma radians_numeric_8: "\<bar>radians (numeric_8 x) - radians x\<bar> \<le> 1 / (9 * 10 ^ 9)"
proof -
  have "radians (numeric_8 x) - radians x = (numeric_8 x - x) * (pi / 180)"
    by (simp add: radians_def algebra_simps)
  moreover have "\<bar>(numeric_8 x - x) * (pi / 180)\<bar> = \<bar>numeric_8 x - x\<bar> * (pi / 180)"
    by (simp add: abs_mult)
  ultimately have "\<bar>radians (numeric_8 x) - radians x\<bar> = \<bar>numeric_8 x - x\<bar> * (pi / 180)"
    by (simp only:)
  also have "\<dots> \<le> (1 / (2 * 10 ^ 8)) * (4 / 180)"
    using numeric_8_error [of x] pi_less_4 by (intro mult_mono) auto
  also have "\<dots> = 1 / (9 * 10 ^ 9)" by simp
  finally show ?thesis .
qed

text \<open>
  The zone a report creates is found again from the same point: the stored coordinates
  are the given ones rounded to eight decimals, within 0.1 km, when the doubles neither
  push the argument of \<open>acos\<close> above 1 nor lose more than \<open>10^-11\<close> below its exact value.
\<close>

lemma stored_zone_near:
  assumes "\<not> acos_raises P lat lng (numeric_8 lat) (numeric_8 lng)"
    and "- (1 / 10 ^ 11) \<le> pg_acos_err P lat lng (numeric_8 lat) (numeric_8 lng)"
  shows "sql_distance P lat lng (numeric_8 lat) (numeric_8 lng) \<le> 1 / 10"
proof -
  define p where "p = radians lat"
  define q where "q = radians (numeric_8 lat)"
  define m where "m = radians (numeric_8 lng) - radians lng"
  define X where "X = cos p * cos q * cos m + sin p * sin q"
  define Y where "Y = acos_arg P lat lng (numeric_8 lat) (numeric_8 lng)"
  define t :: real where "t = 1 / 63710"
  have d: "\<bar>q - p\<bar> \<le> 1 / (9 * 10 ^ 9)" and m: "\<bar>m\<bar> \<le> 1 / (9 * 10 ^ 9)"
    unfolding p_def q_def m_def by (rule radians_numeric_8)+
  have sq: "x\<^sup>2 \<le> (1 / (9 * 10 ^ 9))\<^sup>2" if "\<bar>x\<bar> \<le> 1 / (9 * 10 ^ 9)" for x :: real
    using that abs_le_square_iff [of x "1 / (9 * 10 ^ 9)"] by simp
  have Y: "Y = X + pg_acos_err P lat lng (numeric_8 lat) (numeric_8 lng)"
    unfolding Y_def X_def p_def q_def m_def acos_arg_def by simp
  have Y1: "\<bar>Y\<bar> \<le> 1" using assms(1) unfolding Y_def acos_raises_def by (simp add: abs_le_iff)
  have "1 - X = (1 - cos (q - p)) + cos p * cos q * (1 - cos m)"
    unfolding X_def cos_diff by (simp add: algebra_simps)
  also have "cos p * cos q * (1 - cos m) \<le> 1 * (1 - cos m)"
    by (intro mult_right_mono cos_product_le_one) simp
  finally have "1 - X \<le> (1 - cos (q - p)) + (1 - cos m)" by simp
  also have "\<dots> \<le> (q - p)\<^sup>2 / 2 + m\<^sup>2 / 2"
    by (intro add_mono one_minus_cos_le)
  also have "\<dots> \<le> (1 / (9 * 10 ^ 9))\<^sup>2 / 2 + (1 / (9 * 10 ^ 9))\<^sup>2 / 2"
    using sq [OF d] sq [OF m] by linarith
  finally have "1 - Y \<le> (1 / (9 * 10 ^ 9))\<^sup>2 / 2 + (1 / (9 * 10 ^ 9))\<^sup>2 / 2 + 1 / 10 ^ 11"
    using assms(2) unfolding Y by linarith
  also have "\<dots> \<le> t\<^sup>2 / 8" unfolding t_def by (simp add: power2_eq_square)
  also have "\<dots> \<le> 1 - cos t"
    by (rule one_minus_cos_ge) (simp_all add: t_def)
  finally have "cos t \<le> Y" by simp
  moreover have "\<bar>cos t\<bar> \<le> 1" by simp
  ultimately have "arccos Y \<le> arccos (cos t)"
    using Y1 by (simp only: arccos_le_mono)
  moreover have "arccos (cos t) = t"
    using pi_ge_two by (intro arccos_cos) (simp_all add: t_def)
  ultimately have "6371 * arccos Y \<le> 6371 * t" by simp
  then show ?thesis
    unfolding sql_distance_def Y_def t_def by simp
qed

section \<open>One call of updateHeatZone\<close>

lemma select_existing_zone_member:
  "z \<in> set (select_existing_zone P t lat lng s) \<Longrightarrow> z \<in> set (heat_zones s) \<and> zone_type z = t"
  by (simp add: select_existing_zone_def)

lemma updateHeatZone_cases:
  obtains (unchanged) "fst (updateHeatZone P e lat lng l s) = s"
  | (updated) zone rest where
      "select_existing_zone P (classify l) lat lng s = zone # rest"
      "list_all (update_row_ok (min 10 (intensity zone + 1)) (hz_id zone)) (heat_zones s)"
      "fst (updateHeatZone P e lat lng l s) =
         s\<lparr>heat_zones := map (update_row (min 10 (intensity zone + 1)) (hz_id zone) (now e)) (heat_zones s)\<rparr>"
  | (inserted)
      "select_existing_zone P (classify l) lat lng s = []"
      "fst (updateHeatZone P e lat lng l s) =
         s\<lparr>heat_zones := heat_zones s @ [new_zone (new_uuid e) lat lng (classify l) (now e) s],
           heat_zones_seq := Suc (heat_zones_seq s)\<rparr>"
proof (cases "updateHeatZone_try P e lat lng l s")
  case None
  then have "fst (updateHeatZone P e lat lng l s) = s" by (simp add: updateHeatZone_def)
  then show ?thesis by (rule unchanged)
next
  case (Some s')
  then have fst: "fst (updateHeatZone P e lat lng l s) = s'" by (simp add: updateHeatZone_def)
  show ?thesis
  proof (cases "select_existing_zone P (classify l) lat lng s")
    case Nil
    with Some have "s' = s\<lparr>heat_zones := heat_zones s @ [new_zone (new_uuid e) lat lng (classify l) (now e) s],
           heat_zones_seq := Suc (heat_zones_seq s)\<rparr>"
      by (auto simp: updateHeatZone_try_def insert_heat_zone_def new_zone_def Let_def
            split: if_splits)
    with Nil fst show ?thesis by (intro inserted) simp_all
  next
    case (Cons zone rest)
    with Some have "list_all (update_row_ok (min 10 (intensity zone + 1)) (hz_id zone)) (heat_zones s)"
      and "s' = s\<lparr>heat_zones := map (update_row (min 10 (intensity zone + 1)) (hz_id zone) (now e)) (heat_zones s)\<rparr>"
      by (auto simp: updateHeatZone_try_def update_heat_zone_def Let_def split: if_splits)
    with Cons fst show ?thesis by (intro updated) simp_all
  qed
qed

lemma zone_ok_update_row:
  "zone_ok z \<Longrightarrow> update_row_ok n zid z \<Longrightarrow> zone_ok (update_row n zid t z)"
  by (auto simp: zone_ok_def update_row_ok_def update_row_def)

lemma zones_ok_updateHeatZone:
  assumes "zones_ok s"
  shows "zones_ok (fst (updateHeatZone P e lat lng l s))"
proof (cases P e lat lng l s rule: updateHeatZone_cases)
  case unchanged
  then show ?thesis using assms by simp
next
  case (updated zone rest)
  have "list_all zone_ok (map (update_row (min 10 (intensity zone + 1)) (hz_id zone) (now e)) (heat_zones s))"
    using assms updated(2)
    by (auto simp: zones_ok_def list_all_iff intro: zone_ok_update_row)
  then show ?thesis unfolding updated(3) by (simp add: zones_ok_def)
next
  case inserted
  have "zone_ok (new_zone (new_uuid e) lat lng (classify l) (now e) s)" by (simp add: zone_ok_def new_zone_def)
  then show ?thesis using assms unfolding inserted(2) by (simp add: zones_ok_def)
qed

text \<open>The \<open>CHECK\<close> on \<open>intensity\<close> never rejects the value the code computes.\<close>

lemma new_intensity_in_range:
  assumes "zones_ok s" "select_existing_zone P t lat lng s = zone # rest"
  shows "1 \<le> min 10 (intensity zone + 1) \<and> min 10 (intensity zone + 1) \<le> 10"
proof -
  have "zone \<in> set (heat_zones s)"
    using select_existing_zone_member [of zone P t lat lng s] assms(2) by simp
  then have "zone_ok zone" using assms(1) by (simp add: zones_ok_def list_all_iff)
  then show ?thesis by (simp add: zone_ok_def)
qed

lemma hz_id_update_row [simp]: "hz_id (update_row n zid t z) = hz_id z"
  by (simp add: update_row_def)

lemma ids_ok_updateHeatZone:
  assumes "ids_ok s"
  shows "ids_ok (fst (updateHeatZone P e lat lng l s))"
proof (cases P e lat lng l s rule: updateHeatZone_cases)
  case unchanged
  then show ?thesis using assms by simp
next
  case (updated zone rest)
  show ?thesis using assms unfolding updated(3)
    by (simp add: ids_ok_def list_all_iff comp_def)
next
  case inserted
  show ?thesis using assms unfolding inserted(2)
    by (auto simp: ids_ok_def list_all_iff new_zone_def)
qed

lemma length_updateHeatZone:
  "length (heat_zones s) \<le> length (heat_zones (fst (updateHeatZone P e lat lng l s)))"
  by (cases P e lat lng l s rule: updateHeatZone_cases) simp_all

lemma old_rows_updateHeatZone:
  assumes "i < length (heat_zones s)"
  shows "hz_id (heat_zones (fst (updateHeatZone P e lat lng l s)) ! i) = hz_id (heat_zones s ! i)
       \<and> incident_count (heat_zones s ! i)
           \<le> incident_count (heat_zones (fst (updateHeatZone P e lat lng l s)) ! i)"
proof (cases P e lat lng l s rule: updateHeatZone_cases)
  case unchanged
  then show ?thesis by simp
next
  case (updated zone rest)
  show ?thesis unfolding updated(3) using assms by (simp add: update_row_def)
next
  case inserted
  show ?thesis unfolding inserted(2) using assms by (simp add: nth_append)
qed

lemma new_rows_updateHeatZone:
  assumes "length (heat_zones s) \<le> i" "i < length (heat_zones (fst (updateHeatZone P e lat lng l s)))"
  shows "intensity (heat_zones (fst (updateHeatZone P e lat lng l s)) ! i) = 1
       \<and> incident_count (heat_zones (fst (updateHeatZone P e lat lng l s)) ! i) = 1"
proof (cases P e lat lng l s rule: updateHeatZone_cases)
  case unchanged
  then show ?thesis using assms by simp
next
  case (updated zone rest)
  then show ?thesis using assms by simp
next
  case inserted
  have "i = length (heat_zones s)" using assms unfolding inserted(2) by simp
  then show ?thesis unfolding inserted(2) by (simp add: new_zone_def)
qed

lemma changed_rows_updateHeatZone:
  assumes "ids_ok s" "i < length (heat_zones s)"
  shows "heat_zones (fst (updateHeatZone P e lat lng l s)) ! i = heat_zones s ! i
       \<or> (intensity (heat_zones (fst (updateHeatZone P e lat lng l s)) ! i)
            = min 10 (intensity (heat_zones s ! i) + 1)
          \<and> incident_count (heat_zones (fst (updateHeatZone P e lat lng l s)) ! i)
            = incident_count (heat_zones s ! i) + 1)"
proof (cases P e lat lng l s rule: updateHeatZone_cases)
  case unchanged
  then show ?thesis by simp
next
  case (updated zone rest)
  have mem: "zone \<in> set (heat_zones s)"
    using select_existing_zone_member [of zone P "classify l" lat lng s] updated(1) by simp
  have inj: "inj_on hz_id (set (heat_zones s))"
    using assms(1) by (simp add: ids_ok_def distinct_map)
  show ?thesis
  proof (cases "hz_id (heat_zones s ! i) = hz_id zone")
    case True
    then have "heat_zones s ! i = zone"
      using inj mem assms(2) by (auto dest: inj_onD)
    then show ?thesis unfolding updated(3) using assms(2) by (simp add: update_row_def)
  next
    case False
    then show ?thesis unfolding updated(3) using assms(2) by (simp add: update_row_def)
  qed
next
  case inserted
  show ?thesis unfolding inserted(2) using assms(2) by (simp add: nth_append)
qed

lemma reports_updateHeatZone: "reports (fst (updateHeatZone P e lat lng l s)) = reports s"
  by (cases P e lat lng l s rule: updateHeatZone_cases) simp_all

lemma updateHeatZone_failed:
  assumes "updateHeatZone_try P e lat lng l s = None"
  shows "updateHeatZone P e lat lng l s = (s, [''Error al actualizar zona de calor:''])"
  using assms by (simp add: updateHeatZone_def)

lemma zones_ok_record_incidents: "zones_ok s \<Longrightarrow> zones_ok (record_incidents P calls s)"
  by (induction calls s rule: record_incidents.induct) (simp_all add: zones_ok_updateHeatZone)

lemma ids_ok_record_incidents: "ids_ok s \<Longrightarrow> ids_ok (record_incidents P calls s)"
  by (induction calls s rule: record_incidents.induct) (simp_all add: ids_ok_updateHeatZone)

lemma create_report_cases:
  obtains (rejected) "\<not> reportValidation b" "create_report P e uid b s = (BadRequest400, s, [])"
  | (failed) "reportValidation b" "report_insert_fails e"
      "create_report P e uid b s = (ServerError500, s, [''Error al crear reporte:''])"
  | (created) "reportValidation b" "\<not> report_insert_fails e"
      "create_report P e uid b s =
         (Created201 (report_row e uid b),
          updateHeatZone P e (the (b_latitude b)) (the (b_longitude b)) (trim (the (b_incidentType b)))
            (s\<lparr>reports := reports s @ [report_row e uid b]\<rparr>))"
  by (cases "reportValidation b"; cases "report_insert_fails e")
     (auto simp: create_report_def insert_report_def Let_def split: prod.splits)

lemma zones_ok_create_report:
  assumes "zones_ok s"
  shows "zones_ok (fst (snd (create_report P e uid b s)))"
proof (cases rule: create_report_cases [where P = P and b = b and e = e and uid = uid and s = s])
  case rejected
  then show ?thesis using assms by simp
next
  case failed
  then show ?thesis using assms by simp
next
  case created
  have "zones_ok (s\<lparr>reports := reports s @ [report_row e uid b]\<rparr>)"
    using assms by (simp add: zones_ok_def)
  then show ?thesis unfolding created(3) by (simp add: zones_ok_updateHeatZone)
qed

lemma seed_zones_ok: "zones_ok seed_store" "ids_ok seed_store"
  by (simp_all add: zones_ok_def ids_ok_def seed_store_def seed_heat_zones_def seed_zone_def zone_ok_def)

lemma empty_zones_ok: "zones_ok empty_store" "ids_ok empty_store"
  by (simp_all add: zones_ok_def ids_ok_def empty_store_def)

section \<open>Incidents recorded at one point\<close>

lemma updateHeatZone_creates:
  assumes "no_faults e" "classify l = t" "select_existing_zone P t lat lng s = []"
    and "\<not> select_existing_zone_raises P t lat lng s"
    and "new_uuid e \<notin> set (map hz_uuid (heat_zones s))" "length (new_uuid e) \<le> 36"
    and "\<bar>lat\<bar> \<le> 90" "\<bar>lng\<bar> \<le> 180"
  shows "one_zone_added s lat lng t 1 (fst (updateHeatZone P e lat lng l s))"
proof -
  have "t \<in> set zone_types" using classify_zone_type [of l] assms(2) by simp
  then have "insert_heat_zone (new_uuid e) lat lng t (now e) s =
      Some (s\<lparr>heat_zones := heat_zones s @ [new_zone (new_uuid e) lat lng t (now e) s],
              heat_zones_seq := Suc (heat_zones_seq s)\<rparr>)"
    using assms(5,6) numeric_8_fits(1) [OF assms(7)] numeric_8_fits(2) [OF assms(8)]
    by (simp add: insert_heat_zone_def)
  then have "fst (updateHeatZone P e lat lng l s) =
      s\<lparr>heat_zones := heat_zones s @ [new_zone (new_uuid e) lat lng t (now e) s],
        heat_zones_seq := Suc (heat_zones_seq s)\<rparr>"
    using assms(1,2,3,4) by (simp add: updateHeatZone_def updateHeatZone_try_def no_faults_def)
  then show ?thesis by (simp add: one_zone_added_def new_zone_def)
qed

text \<open>
  Where the query does not raise on the zone at the stored coordinates, a further
  incident at the point increments that zone.
\<close>

lemma updateHeatZone_increments:
  assumes added: "one_zone_added s0 lat lng t k s"
    and k: "1 \<le> k" "int k + 1 \<le> 2147483647"
    and ids: "ids_ok s0" and none: "select_existing_zone P t lat lng s0 = []"
      "\<not> select_existing_zone_raises P t lat lng s0"
    and stored: "\<not> acos_raises P lat lng (numeric_8 lat) (numeric_8 lng)"
      "- (1 / 10 ^ 11) \<le> pg_acos_err P lat lng (numeric_8 lat) (numeric_8 lng)"
    and e: "no_faults e" "classify l = t"
  shows "one_zone_added s0 lat lng t (Suc k) (fst (updateHeatZone P e lat lng l s))"
proof -
  from added obtain z where z: "heat_zones s = heat_zones s0 @ [z]" "hz_id z = heat_zones_seq s0"
    "hz_latitude z = numeric_8 lat" "hz_longitude z = numeric_8 lng"
    "zone_type z = t" "intensity z = min 10 (int k)" "incident_count z = int k"
    unfolding one_zone_added_def by blast
  let ?n = "min 10 (intensity z + 1)"
  have near: "sql_distance P lat lng (hz_latitude z) (hz_longitude z) \<le> 1 / 10"
    unfolding z(3,4) using stored by (rule stored_zone_near)
  have sel: "select_existing_zone P t lat lng s = [z]"
    using none(1) near z(5) by (simp add: select_existing_zone_def z(1))
  have quiet: "\<not> select_existing_zone_raises P t lat lng s"
    using none(2) stored(1) by (simp add: select_existing_zone_raises_def z(1,3,4))
  have other: "hz_id y \<noteq> hz_id z" if "y \<in> set (heat_zones s0)" for y
    using ids that unfolding z(2) by (auto simp: ids_ok_def list_all_iff)
  have ok: "list_all (update_row_ok ?n (hz_id z)) (heat_zones s)"
    using other k z(6,7) by (auto simp: z(1) list_all_iff update_row_ok_def)
  have same: "map (update_row ?n (hz_id z) (now e)) (heat_zones s0) = heat_zones s0"
    using other by (induction "heat_zones s0") (auto simp: update_row_def map_idI)
  have "update_heat_zone ?n (hz_id z) (now e) s =
      Some (s\<lparr>heat_zones := heat_zones s0 @ [update_row ?n (hz_id z) (now e) z]\<rparr>)"
    using ok same by (simp add: update_heat_zone_def z(1))
  then have "fst (updateHeatZone P e lat lng l s) =
      s\<lparr>heat_zones := heat_zones s0 @ [update_row ?n (hz_id z) (now e) z]\<rparr>"
    using e sel quiet by (simp add: updateHeatZone_def updateHeatZone_try_def no_faults_def)
  moreover have "min 10 (min 10 (int k) + 1) = min 10 (int (Suc k))" by simp
  ultimately show ?thesis
    using z by (simp add: one_zone_added_def update_row_def)
qed

lemma record_incidents_increments:
  assumes "one_zone_added s0 lat lng t k s" "1 \<le> k" "int k + int (length calls) \<le> 2147483647"
    and "ids_ok s0" "select_existing_zone P t lat lng s0 = []"
      "\<not> select_existing_zone_raises P t lat lng s0"
    and "\<not> acos_raises P lat lng (numeric_8 lat) (numeric_8 lng)"
      "- (1 / 10 ^ 11) \<le> pg_acos_err P lat lng (numeric_8 lat) (numeric_8 lng)"
    and "\<forall>c\<in>set calls. no_faults (fst c) \<and> fst (snd c) = lat \<and> fst (snd (snd c)) = lng
                        \<and> classify (snd (snd (snd c))) = t"
  shows "one_zone_added s0 lat lng t (k + length calls) (record_incidents P calls s)"
  using assms
proof (induction calls arbitrary: k s)
  case Nil
  then show ?case by simp
next
  case (Cons c calls)
  obtain e a b l where c: "c = (e, a, b, l)" by (cases c) auto
  have ce: "no_faults e" "a = lat" "b = lng" "classify l = t"
    using Cons.prems(9) by (simp_all add: c)
  have step: "one_zone_added s0 lat lng t (Suc k) (fst (updateHeatZone P e lat lng l s))"
    using Cons.prems(1-8) ce by (intro updateHeatZone_increments) simp_all
  have "one_zone_added s0 lat lng t (Suc k + length calls)
          (record_incidents P calls (fst (updateHeatZone P e lat lng l s)))"
    using step Cons.prems(3-9) by (intro Cons.IH) simp_all
  then show ?case by (simp add: c ce)
qed

text \<open>
  Where the doubles keep the argument of \<open>acos\<close> for the stored point in range, the
  incidents at one point accumulate in one zone.
\<close>

lemma record_incidents_one_zone:
  assumes "calls \<noteq> []" "int (length calls) \<le> 2147483647"
    and "\<forall>c\<in>set calls. no_faults (fst c) \<and> fst (snd c) = lat \<and> fst (snd (snd c)) = lng
                        \<and> classify (snd (snd (snd c))) = t"
    and "\<bar>lat\<bar> \<le> 90" "\<bar>lng\<bar> \<le> 180" "ids_ok s" "select_existing_zone P t lat lng s = []"
      "\<not> select_existing_zone_raises P t lat lng s"
    and "\<not> acos_raises P lat lng (numeric_8 lat) (numeric_8 lng)"
      "- (1 / 10 ^ 11) \<le> pg_acos_err P lat lng (numeric_8 lat) (numeric_8 lng)"
    and "new_uuid (fst (hd calls)) \<notin> set (map hz_uuid (heat_zones s))"
        "length (new_uuid (fst (hd calls))) \<le> 36"
  shows "one_zone_added s lat lng t (length calls) (record_incidents P calls s)"
proof -
  obtain c rest where calls: "calls = c # rest" using assms(1) by (cases calls) auto
  obtain e a b l where c: "c = (e, a, b, l)" by (cases c) auto
  have ce: "no_faults e" "a = lat" "b = lng" "classify l = t"
    using assms(3) by (simp_all add: calls c)
  have first: "one_zone_added s lat lng t 1 (fst (updateHeatZone P e lat lng l s))"
    using assms(4-12) ce by (intro updateHeatZone_creates) (simp_all add: calls c)
  have "one_zone_added s lat lng t (1 + length rest)
          (record_incidents P rest (fst (updateHeatZone P e lat lng l s)))"
    using first assms(2,3,6-10) by (intro record_incidents_increments) (simp_all add: calls)
  then show ?thesis by (simp add: calls c ce)
qed

text \<open>
  Where \<open>acos\<close> raises on the zone at the stored coordinates, every further incident at
  the point fails in the query and leaves the table as it is.
\<close>

lemma updateHeatZone_raises:
  assumes added: "one_zone_added s0 lat lng t k s"
    and stored: "acos_raises P lat lng (numeric_8 lat) (numeric_8 lng)"
    and e: "classify l = t"
  shows "updateHeatZone P e lat lng l s = (s, [''Error al actualizar zona de calor:''])"
proof -
  from added obtain z where z: "heat_zones s = heat_zones s0 @ [z]"
    "hz_latitude z = numeric_8 lat" "hz_longitude z = numeric_8 lng" "zone_type z = t"
    unfolding one_zone_added_def by blast
  have "select_existing_zone_raises P t lat lng s"
    using stored by (simp add: select_existing_zone_raises_def z)
  then have "updateHeatZone_try P e lat lng l s = None"
    using e by (simp add: updateHeatZone_try_def)
  then show ?thesis by (simp add: updateHeatZone_def)
qed

lemma record_incidents_raises:
  assumes "one_zone_added s0 lat lng t k s"
    and "acos_raises P lat lng (numeric_8 lat) (numeric_8 lng)"
    and "\<forall>c\<in>set calls. fst (snd c) = lat \<and> fst (snd (snd c)) = lng
                        \<and> classify (snd (snd (snd c))) = t"
  shows "record_incidents P calls s = s"
  using assms
proof (induction calls)
  case Nil
  then show ?case by simp
next
  case (Cons c calls)
  obtain e a b l where c: "c = (e, a, b, l)" by (cases c) auto
  have ce: "a = lat" "b = lng" "classify l = t"
    using Cons.prems(3) by (simp_all add: c)
  have "updateHeatZone P e lat lng l s = (s, [''Error al actualizar zona de calor:''])"
    using Cons.prems(1,2) ce(3) by (rule updateHeatZone_raises)
  then show ?case using Cons by (simp add: c ce)
qed

lemma record_incidents_stuck:
  assumes "calls \<noteq> []"
    and "\<forall>c\<in>set calls. no_faults (fst c) \<and> fst (snd c) = lat \<and> fst (snd (snd c)) = lng
                        \<and> classify (snd (snd (snd c))) = t"
    and "\<bar>lat\<bar> \<le> 90" "\<bar>lng\<bar> \<le> 180" "select_existing_zone P t lat lng s = []"
      "\<not> select_existing_zone_raises P t lat lng s"
    and "acos_raises P lat lng (numeric_8 lat) (numeric_8 lng)"
    and "new_uuid (fst (hd calls)) \<notin> set (map hz_uuid (heat_zones s))"
        "length (new_uuid (fst (hd calls))) \<le> 36"
  shows "one_zone_added s lat lng t 1 (record_incidents P calls s)"
proof -
  obtain c rest where calls: "calls = c # rest" using assms(1) by (cases calls) auto
  obtain e a b l where c: "c = (e, a, b, l)" by (cases c) auto
  have ce: "no_faults e" "a = lat" "b = lng" "classify l = t"
    using assms(2) by (simp_all add: calls c)
  have first: "one_zone_added s lat lng t 1 (fst (updateHeatZone P e lat lng l s))"
    using assms(3-9) ce by (intro updateHeatZone_creates) (simp_all add: calls c)
  have rest: "\<forall>c\<in>set rest. fst (snd c) = lat \<and> fst (snd (snd c)) = lng
                        \<and> classify (snd (snd (snd c))) = t"
    using assms(2) by (simp add: calls)
  have "record_incidents P rest (fst (updateHeatZone P e lat lng l s))
          = fst (updateHeatZone P e lat lng l s)"
    using first assms(7) rest by (rule record_incidents_raises)
  then show ?thesis using first by (simp add: calls c ce)
qed

section \<open>Accumulation on the example data\<close>

lemma example_report_valid: "reportValidation example_report"
  "trim (the (b_incidentType example_report)) = str ''Robo a mano armada''"
  by (simp_all add: reportValidation_def example_report_def trim_def is_space_def str_def isFloat_def)

lemma example_zone_query_succeeds [simp]:
  "\<not> select_existing_zone_raises example_platform t 0 p s"
  by (simp add: select_existing_zone_raises_def list_ex_iff)

lemma example_update:
  "heat_zones (fst (updateHeatZone example_platform example_env 0 0 (str ''Robo'') example_store)) =
     [example_zone 1 (str ''accident'') 6 8 0 0,
      (example_zone 2 (str ''crime'') 3 6 0 0)
        \<lparr>incident_count := 7, intensity := 4, last_incident_at := 7, hz_updated_at := 7\<rparr>,
      example_zone 3 (str ''danger'') 9 10 0 180]"
proof -
  have c: "classify (str ''Robo'') = str ''crime''"
    by (simp add: classify_def toLowerCase_def str_def lower_unit_def)
  have sel: "select_existing_zone example_platform (str ''crime'') 0 0 example_store = [example_zone 2 (str ''crime'') 3 6 0 0]"
    by (simp add: select_existing_zone_def example_store_def)
       (simp add: example_zone_def zone_type_names_distinct zone_type_names_distinct [symmetric])
  have "updateHeatZone_try example_platform example_env 0 0 (str ''Robo'') example_store =
          Some (example_store\<lparr>heat_zones :=
            [example_zone 1 (str ''accident'') 6 8 0 0,
             (example_zone 2 (str ''crime'') 3 6 0 0)
               \<lparr>incident_count := 7, intensity := 4, last_incident_at := 7, hz_updated_at := 7\<rparr>,
             example_zone 3 (str ''danger'') 9 10 0 180]\<rparr>)"
    unfolding updateHeatZone_try_def c Let_def sel
    by (simp add: example_env_def update_heat_zone_def)
       (simp add: example_store_def example_zone_def update_row_ok_def update_row_def)
  then show ?thesis by (simp add: updateHeatZone_def)
qed

lemma example_store_ok: "zones_ok example_store" "ids_ok example_store"
  by (simp_all add: zones_ok_def ids_ok_def example_store_def example_zone_def zone_ok_def)

section \<open>Claims about accumulation\<close>

text \<open>
  Claim C4. A failure of a store statement inside \<open>updateHeatZone\<close> is caught and
  logged, and does not reach the caller: whenever the request is valid and the
  insertion of the report succeeds, the handler replies 201 with the report, the report
  is in the table, and, when the accumulation failed, the heat zones are as before and
  the console holds the line of the \<open>catch\<close>. A failing zone query is one such failure.
\<close>

theorem heat_zone_failure_is_swallowed:
  "(reportValidation b \<and> \<not> report_insert_fails e \<longrightarrow>
      (\<exists>s' lines.
          create_report P e uid b s = (Created201 (report_row e uid b), s', lines)
          \<and> reports s' = reports s @ [report_row e uid b]
          \<and> (updateHeatZone_try P e (the (b_latitude b)) (the (b_longitude b))
                (trim (the (b_incidentType b)))
                (s\<lparr>reports := reports s @ [report_row e uid b]\<rparr>) = None \<longrightarrow>
              heat_zones s' = heat_zones s
              \<and> lines = [''Error al actualizar zona de calor:''])))
   \<and> (zone_select_fails e \<longrightarrow> updateHeatZone_try P e lat lng l s = None)
   \<and> (updateHeatZone_try P e lat lng l s = None \<longrightarrow>
        updateHeatZone P e lat lng l s = (s, [''Error al actualizar zona de calor:'']))"
proof (intro conjI impI)
  assume ok: "reportValidation b \<and> \<not> report_insert_fails e"
  let ?s1 = "s\<lparr>reports := reports s @ [report_row e uid b]\<rparr>"
  let ?u = "updateHeatZone P e (the (b_latitude b)) (the (b_longitude b))
              (trim (the (b_incidentType b))) ?s1"
  have cr: "create_report P e uid b s = (Created201 (report_row e uid b), fst ?u, snd ?u)"
    using ok by (cases rule: create_report_cases [where P = P and b = b and e = e and uid = uid and s = s]) simp_all
  have rep: "reports (fst ?u) = reports s @ [report_row e uid b]"
    by (simp add: reports_updateHeatZone)
  have fail: "heat_zones (fst ?u) = heat_zones s \<and> snd ?u = [''Error al actualizar zona de calor:'']"
    if "updateHeatZone_try P e (the (b_latitude b)) (the (b_longitude b))
          (trim (the (b_incidentType b))) ?s1 = None"
    using updateHeatZone_failed [OF that] by simp
  show "\<exists>s' lines.
          create_report P e uid b s = (Created201 (report_row e uid b), s', lines)
          \<and> reports s' = reports s @ [report_row e uid b]
          \<and> (updateHeatZone_try P e (the (b_latitude b)) (the (b_longitude b))
                (trim (the (b_incidentType b))) ?s1 = None \<longrightarrow>
              heat_zones s' = heat_zones s
              \<and> lines = [''Error al actualizar zona de calor:''])"
    by (rule exI [of _ "fst ?u"], rule exI [of _ "snd ?u"]) (use cr rep fail in simp)
next
  assume "zone_select_fails e"
  then show "updateHeatZone_try P e lat lng l s = None"
    by (simp add: updateHeatZone_try_def)
next
  assume "updateHeatZone_try P e lat lng l s = None"
  then show "updateHeatZone P e lat lng l s = (s, [''Error al actualizar zona de calor:''])"
    by (rule updateHeatZone_failed)
qed

theorem heat_zone_failure_is_swallowed_witness:
  "reportValidation example_report \<and> \<not> report_insert_fails failing_env
   \<and> zone_select_fails failing_env
   \<and> (\<exists>s'. create_report example_platform failing_env 1 example_report seed_store
              = (Created201 (report_row failing_env 1 example_report), s',
                 [''Error al actualizar zona de calor:''])
           \<and> reports s' = [report_row failing_env 1 example_report]
           \<and> heat_zones s' = seed_heat_zones)"
proof -
  have env: "\<not> report_insert_fails failing_env" "zone_select_fails failing_env"
    by (simp_all add: failing_env_def)
  have st: "reports seed_store = []" "heat_zones seed_store = seed_heat_zones"
    by (simp_all add: seed_store_def)
  let ?s1 = "seed_store\<lparr>reports := reports seed_store @ [report_row failing_env 1 example_report]\<rparr>"
  have "updateHeatZone_try example_platform failing_env (the (b_latitude example_report))
          (the (b_longitude example_report)) (trim (the (b_incidentType example_report))) ?s1 = None"
    using heat_zone_failure_is_swallowed
      [of example_report failing_env example_platform 1 ?s1
          "the (b_latitude example_report)" "the (b_longitude example_report)"
          "trim (the (b_incidentType example_report))"] env
    by simp
  then show ?thesis
    using heat_zone_failure_is_swallowed
      [of example_report failing_env example_platform 1 seed_store 0 0 "[]"]
      example_report_valid(1) env st
    by auto
qed

text \<open>
  Claim C8. Every operation on heat zones keeps each zone's \<open>intensity\<close> in
  \<open>[1, 10]\<close> and its \<open>incidentCount\<close> at least 1. One call of \<open>updateHeatZone\<close>
  keeps the rows of the table in place with their \<open>id\<close>s and never lowers an
  \<open>incidentCount\<close>; a row it adds has intensity 1 and count 1; a row it changes gets
  \<open>min(10, intensity + 1)\<close> and one more incident. So the bounds hold after any
  sequence of incidents, from the empty table and from the seeded one, and after the
  handler that creates a report.
\<close>

theorem heat_zone_bounds_invariant:
  "(zones_ok s \<longrightarrow> zones_ok (fst (updateHeatZone P e lat lng l s)))
   \<and> length (heat_zones s) \<le> length (heat_zones (fst (updateHeatZone P e lat lng l s)))
   \<and> (\<forall>i<length (heat_zones s).
         hz_id (heat_zones (fst (updateHeatZone P e lat lng l s)) ! i) = hz_id (heat_zones s ! i)
         \<and> incident_count (heat_zones s ! i)
             \<le> incident_count (heat_zones (fst (updateHeatZone P e lat lng l s)) ! i))
   \<and> (\<forall>i<length (heat_zones (fst (updateHeatZone P e lat lng l s))).
         length (heat_zones s) \<le> i \<longrightarrow>
         intensity (heat_zones (fst (updateHeatZone P e lat lng l s)) ! i) = 1
         \<and> incident_count (heat_zones (fst (updateHeatZone P e lat lng l s)) ! i) = 1)
   \<and> (ids_ok s \<longrightarrow>
        ids_ok (fst (updateHeatZone P e lat lng l s))
        \<and> (\<forall>i<length (heat_zones s).
              heat_zones (fst (updateHeatZone P e lat lng l s)) ! i = heat_zones s ! i
              \<or> (intensity (heat_zones (fst (updateHeatZone P e lat lng l s)) ! i)
                    = min 10 (intensity (heat_zones s ! i) + 1)
                  \<and> incident_count (heat_zones (fst (updateHeatZone P e lat lng l s)) ! i)
                    = incident_count (heat_zones s ! i) + 1)))
   \<and> (zones_ok s \<longrightarrow> zones_ok (record_incidents P calls s))
   \<and> zones_ok (record_incidents P calls empty_store)
   \<and> zones_ok (record_incidents P calls seed_store)
   \<and> (zones_ok s \<longrightarrow> zones_ok (fst (snd (create_report P e uid b s))))"
proof (intro conjI impI allI)
  show "zones_ok (record_incidents P calls empty_store)"
    by (rule zones_ok_record_incidents) (rule empty_zones_ok)
  show "zones_ok (record_incidents P calls seed_store)"
    by (rule zones_ok_record_incidents) (rule seed_zones_ok)
qed (simp_all add: zones_ok_updateHeatZone length_updateHeatZone old_rows_updateHeatZone
      new_rows_updateHeatZone ids_ok_updateHeatZone changed_rows_updateHeatZone
      zones_ok_record_incidents zones_ok_create_report)

theorem heat_zone_bounds_invariant_witness:
  "zones_ok example_store \<and> ids_ok example_store
   \<and> zones_ok (fst (updateHeatZone example_platform example_env 0 0 (str ''Robo'') example_store))
   \<and> ids_ok (fst (updateHeatZone example_platform example_env 0 0 (str ''Robo'') example_store))
   \<and> intensity (heat_zones example_store ! 1) = 3
   \<and> intensity (heat_zones (fst (updateHeatZone example_platform example_env 0 0 (str ''Robo'') example_store)) ! 1) = 4
   \<and> incident_count (heat_zones example_store ! 1) = 6
   \<and> incident_count (heat_zones (fst (updateHeatZone example_platform example_env 0 0 (str ''Robo'') example_store)) ! 1) = 7
   \<and> zones_ok (record_incidents example_platform [(example_env, 0, 0, str ''Robo'')] example_store)"
proof -
  have before: "intensity (heat_zones example_store ! 1) = 3"
    "incident_count (heat_zones example_store ! 1) = 6"
    by (simp_all add: example_store_def example_zone_def)
  have after: "intensity (heat_zones (fst (updateHeatZone example_platform example_env 0 0 (str ''Robo'') example_store)) ! 1) = 4"
    "incident_count (heat_zones (fst (updateHeatZone example_platform example_env 0 0 (str ''Robo'') example_store)) ! 1) = 7"
    unfolding example_update by (simp_all add: example_zone_def)
  show ?thesis
    using heat_zone_bounds_invariant
      [of example_store example_platform example_env 0 0 "str ''Robo''"
          "[(example_env, 0, 0, str ''Robo'')]" 1 example_report]
      example_store_ok before after
    by simp
qed

text \<open>
  Claim C2. Eleven incidents in a row, all classified to one zone type \<open>t\<close> and all at
  one point, are recorded with no statement of the environment failing, on a table that
  holds no zone of type \<open>t\<close> within 0.1 km of the point. The first incident creates a
  zone at the point, with \<open>incidentCount\<close> 1 and intensity 1. Each later incident looks
  that zone up by its distance to the point. Where PostgreSQL's doubles round the
  argument of \<open>acos\<close>, for the point against its own stored coordinates, above 1, the
  query raises \<open>input is out of range\<close>, the \<open>catch\<close> swallows it, and the table ends
  with the zone at \<open>incidentCount\<close> 1 and intensity 1. Where the argument stays in
  range, the table ends with the zone at \<open>incidentCount\<close> 11 and intensity 10.
\<close>

theorem eleven_incidents_at_one_point:
  "length calls = 11
   \<and> (\<forall>c\<in>set calls. no_faults (fst c) \<and> fst (snd c) = lat \<and> fst (snd (snd c)) = lng
                       \<and> classify (snd (snd (snd c))) = t)
   \<and> \<bar>lat\<bar> \<le> 90 \<and> \<bar>lng\<bar> \<le> 180
   \<and> ids_ok s \<and> select_existing_zone P t lat lng s = []
   \<and> \<not> select_existing_zone_raises P t lat lng s
   \<and> new_uuid (fst (hd calls)) \<notin> set (map hz_uuid (heat_zones s))
   \<and> length (new_uuid (fst (hd calls))) \<le> 36
   \<longrightarrow>
     (acos_raises P lat lng (numeric_8 lat) (numeric_8 lng) \<longrightarrow>
        (\<exists>z. heat_zones (record_incidents P calls s) = heat_zones s @ [z]
             \<and> zone_type z = t \<and> incident_count z = 1 \<and> intensity z = 1))
     \<and> (\<not> acos_raises P lat lng (numeric_8 lat) (numeric_8 lng)
         \<and> - (1 / 10 ^ 11) \<le> pg_acos_err P lat lng (numeric_8 lat) (numeric_8 lng) \<longrightarrow>
        (\<exists>z. heat_zones (record_incidents P calls s) = heat_zones s @ [z]
             \<and> zone_type z = t \<and> incident_count z = 11 \<and> intensity z = 10))"
proof (intro impI conjI)
  assume a: "length calls = 11
   \<and> (\<forall>c\<in>set calls. no_faults (fst c) \<and> fst (snd c) = lat \<and> fst (snd (snd c)) = lng
                       \<and> classify (snd (snd (snd c))) = t)
   \<and> \<bar>lat\<bar> \<le> 90 \<and> \<bar>lng\<bar> \<le> 180
   \<and> ids_ok s \<and> select_existing_zone P t lat lng s = []
   \<and> \<not> select_existing_zone_raises P t lat lng s
   \<and> new_uuid (fst (hd calls)) \<notin> set (map hz_uuid (heat_zones s))
   \<and> length (new_uuid (fst (hd calls))) \<le> 36"
  then have ne: "calls \<noteq> []" by auto
  {
    assume r: "acos_raises P lat lng (numeric_8 lat) (numeric_8 lng)"
    have "one_zone_added s lat lng t 1 (record_incidents P calls s)"
      using ne a r by (intro record_incidents_stuck) simp_all
    then show "\<exists>z. heat_zones (record_incidents P calls s) = heat_zones s @ [z]
             \<and> zone_type z = t \<and> incident_count z = 1 \<and> intensity z = 1"
      unfolding one_zone_added_def by auto
  }
  {
    assume r: "\<not> acos_raises P lat lng (numeric_8 lat) (numeric_8 lng)
         \<and> - (1 / 10 ^ 11) \<le> pg_acos_err P lat lng (numeric_8 lat) (numeric_8 lng)"
    have "one_zone_added s lat lng t (length calls) (record_incidents P calls s)"
      using ne a r by (intro record_incidents_one_zone) simp_all
    then show "\<exists>z. heat_zones (record_incidents P calls s) = heat_zones s @ [z]
             \<and> zone_type z = t \<and> incident_count z = 11 \<and> intensity z = 10"
      using a unfolding one_zone_added_def by auto
  }
qed

theorem eleven_incidents_at_one_point_witness:
  "length eleven_reports = 11
   \<and> numeric_8 (- 12.0997) = - 12.0997 \<and> numeric_8 (- 77.0352) = - 77.0352
   \<and> acos_arg example_platform (- 12.0997) (- 77.0352) (- 12.0997) (- 77.0352) = 1 + 1 / 2 ^ 52
   \<and> acos_raises example_platform (- 12.0997) (- 77.0352) (- 12.0997) (- 77.0352)
   \<and> (\<exists>z. heat_zones (record_incidents example_platform eleven_reports empty_store) = [z]
          \<and> zone_type z = str ''crime'' \<and> incident_count z = 1 \<and> intensity z = 1)
   \<and> \<not> acos_raises example_platform 0 0 (numeric_8 0) (numeric_8 0)
   \<and> (\<exists>z. heat_zones (record_incidents example_platform
                          (replicate 11 (example_env, 0, 0, str ''Robo'')) empty_store) = [z]
          \<and> zone_type z = str ''crime'' \<and> incident_count z = 11 \<and> intensity z = 10)"
proof -
  have c: "classify (str ''Robo'') = str ''crime''"
    by (simp add: classify_def toLowerCase_def str_def lower_unit_def)
  have e: "no_faults example_env" "new_uuid example_env = str ''u1''"
    by (simp_all add: no_faults_def example_env_def)
  have s: "select_existing_zone example_platform (str ''crime'') lat lng empty_store = []"
    "\<not> select_existing_zone_raises example_platform (str ''crime'') lat lng empty_store"
    "heat_zones empty_store = []" for lat lng
    by (simp_all add: select_existing_zone_def select_existing_zone_raises_def empty_store_def)
  have u: "length (str ''u1'') \<le> 36" by (simp add: str_def)
  have n: "numeric_8 (- 12.0997) = - 12.0997" "numeric_8 (- 77.0352) = - 77.0352"
    "numeric_8 0 = 0"
    by (simp_all add: numeric_8_def)
  have arg: "acos_arg example_platform (- 12.0997) (- 77.0352) (- 12.0997) (- 77.0352) = 1 + 1 / 2 ^ 52"
    unfolding acos_arg_eq central_cos_same by (simp add: example_platform_def)
  have raises: "acos_raises example_platform (- 12.0997) (- 77.0352) (- 12.0997) (- 77.0352)"
    unfolding acos_raises_def arg by simp
  have quiet: "\<not> acos_raises example_platform 0 0 0 0"
    "- (1 / 10 ^ 11) \<le> pg_acos_err example_platform 0 0 0 0"
    by simp_all
  have len: "length eleven_reports = 11" "hd eleven_reports = (example_env, - 12.0997, - 77.0352, str ''Robo'')"
    "set eleven_reports = {(example_env, - 12.0997, - 77.0352, str ''Robo'')}"
    by (simp_all add: eleven_reports_def)
  have one: "\<exists>z. heat_zones (record_incidents example_platform eleven_reports empty_store) = [z]
          \<and> zone_type z = str ''crime'' \<and> incident_count z = 1 \<and> intensity z = 1"
    using eleven_incidents_at_one_point
      [of eleven_reports "- 12.0997" "- 77.0352" "str ''crime''" empty_store example_platform]
      c e s u raises empty_zones_ok(2)
    unfolding n len by simp
  have two: "\<exists>z. heat_zones (record_incidents example_platform
                          (replicate 11 (example_env, 0, 0, str ''Robo'')) empty_store) = [z]
          \<and> zone_type z = str ''crime'' \<and> incident_count z = 11 \<and> intensity z = 10"
    using eleven_incidents_at_one_point
      [of "replicate 11 (example_env, 0, 0, str ''Robo'')" 0 0 "str ''crime''" empty_store example_platform]
      c e s u quiet empty_zones_ok(2)
    unfolding n by simp
  show ?thesis using one two len(1) n(1,2) arg raises quiet(1) unfolding n(3) by blast
qed


end
